theory Spec2Isabelle
  imports Complex_Main
begin

section \<open>bin\_preproc.py: Binance CSV export to DaLI manual CSV\<close>

text \<open>
  A shallow embedding of \<^verbatim>\<open>src/bin_preproc.py\<close>. The embedding follows the source
  function by function and keeps its names.

  Conventions of the model:
  \<^item> A CSV row (a dict of \<^verbatim>\<open>csv.DictReader\<close>) is the record \<open>raw_record\<close>. The key
    \<^verbatim>\<open>Remark\<close> is read with \<^verbatim>\<open>rec.get\<close>, so it may be absent: \<open>Remark\<close> is an option.
  \<^item> The library functions the source calls and that can raise are parameters, collected
    in \<open>pylib\<close>: \<^verbatim>\<open>float(s)\<close> is \<open>py_float\<close> (\<open>None\<close> is ValueError) and
    \<^verbatim>\<open>datetime.strptime(s, "%Y-%m-%d %H:%M:%S").strftime("%Y-%m-%dT%H:%M:%SZ")\<close> is
    \<open>py_isoformat\<close> (\<open>None\<close> is ValueError).
  \<^item> A Python float is a \<open>pyfloat\<close>: a rational, an infinity or NaN, with the arithmetic
    and the comparisons of IEEE 754 on them. Rounding is left out: the sum of two finite
    values is their exact sum.
  \<^item> An exception is a value \<open>Inl e\<close> of the result type \<open>py_error + 'a\<close>.
  \<^item> The output dicts are the records \<open>in_record\<close>, \<open>out_record\<close> and
    \<open>intra_record\<close>. A field the source fills with \<^verbatim>\<open>str(x)\<close> of a number holds that
    number; a field the source fills with the empty string holds \<open>None\<close>. The
    \<^verbatim>\<open>unique_id\<close> key (a random \<^verbatim>\<open>uuid4\<close>) is left out. An f-string with numbers in
    it is a list of \<open>note_part\<close>.
  \<^item> The mutable lists \<^verbatim>\<open>in_transactions\<close>, \<^verbatim>\<open>out_transactions\<close> and
    \<^verbatim>\<open>intra_transactions\<close> are passed from one loop to the next and returned extended.
  \<^item> The \<^verbatim>\<open>print\<close> calls of \<^verbatim>\<open>main\<close> are left out.
\<close>

subsection \<open>Data\<close>

record raw_record =
  UTC_Time :: string
  Operation :: string
  Coin :: string
  Change :: string
  Remark :: "string option"

datatype py_error =
  FloatError string      \<comment> \<open>ValueError of \<^verbatim>\<open>float(s)\<close>\<close>
| TimeFormatError string \<comment> \<open>ValueError of \<^verbatim>\<open>datetime.strptime(s, fmt)\<close>\<close>
| UnpackError nat        \<comment> \<open>ValueError of unpacking a list of the given length into two names\<close>
| SeparatorError         \<comment> \<open>ValueError of \<^verbatim>\<open>s.split("")\<close>\<close>
| IndexError             \<comment> \<open>\<^verbatim>\<open>group[0]\<close> on an empty list\<close>

text \<open>
  The values of \<^verbatim>\<open>float\<close>. \<^verbatim>\<open>float("nan")\<close> and \<^verbatim>\<open>float("inf")\<close> are floats too; NaN
  absorbs in \<^verbatim>\<open>+\<close>, \<^verbatim>\<open>-\<close> and \<^verbatim>\<open>abs\<close>, and every comparison with NaN is false.
\<close>

datatype pyfloat = Finite rat | PosInf | NegInf | NaN

fun negate :: "pyfloat \<Rightarrow> pyfloat" where
  "negate (Finite a) = Finite (- a)"
| "negate PosInf = NegInf"
| "negate NegInf = PosInf"
| "negate NaN = NaN"

instantiation pyfloat :: "{zero, plus, minus, abs, ord}"
begin

definition zero_pyfloat :: pyfloat where
  "zero_pyfloat = Finite 0"

fun plus_pyfloat :: "pyfloat \<Rightarrow> pyfloat \<Rightarrow> pyfloat" where
  "plus_pyfloat NaN y = NaN"
| "plus_pyfloat x NaN = NaN"
| "plus_pyfloat (Finite a) (Finite b) = Finite (a + b)"
| "plus_pyfloat PosInf NegInf = NaN"
| "plus_pyfloat NegInf PosInf = NaN"
| "plus_pyfloat PosInf y = PosInf"
| "plus_pyfloat x PosInf = PosInf"
| "plus_pyfloat NegInf y = NegInf"
| "plus_pyfloat x NegInf = NegInf"

definition minus_pyfloat :: "pyfloat \<Rightarrow> pyfloat \<Rightarrow> pyfloat" where
  "minus_pyfloat x y = x + negate y"

fun abs_pyfloat :: "pyfloat \<Rightarrow> pyfloat" where
  "abs_pyfloat (Finite a) = Finite (abs a)"
| "abs_pyfloat PosInf = PosInf"
| "abs_pyfloat NegInf = PosInf"
| "abs_pyfloat NaN = NaN"

fun less_pyfloat :: "pyfloat \<Rightarrow> pyfloat \<Rightarrow> bool" where
  "less_pyfloat NaN y = False"
| "less_pyfloat x NaN = False"
| "less_pyfloat (Finite a) (Finite b) = (a < b)"
| "less_pyfloat x NegInf = False"
| "less_pyfloat PosInf y = False"
| "less_pyfloat NegInf y = True"
| "less_pyfloat x PosInf = True"

definition less_eq_pyfloat :: "pyfloat \<Rightarrow> pyfloat \<Rightarrow> bool" where
  "less_eq_pyfloat x y = (x < y \<or> (x = y \<and> x \<noteq> NaN))"

instance ..

end

text \<open>Sums of floats do not depend on the bracketing: \<open>sum_list\<close> is available.\<close>

lemma pyfloat_add_assoc: "(x + y) + z = x + (y + z)" for x y z :: pyfloat
proof (cases x)
  case (Finite u)
  then show ?thesis by (cases y; cases z) simp_all
qed (cases y; cases z; simp)+

lemma pyfloat_add_commute: "x + y = y + x" for x y :: pyfloat
  by (cases x; cases y) simp_all

lemma pyfloat_zero_add: "0 + x = x" for x :: pyfloat
  by (cases x) (simp_all add: zero_pyfloat_def)

instance pyfloat :: comm_monoid_add
  by standard (fact pyfloat_add_assoc pyfloat_add_commute pyfloat_zero_add)+

record pylib =
  py_float :: "string \<Rightarrow> pyfloat option"
  py_isoformat :: "string \<Rightarrow> string option"

datatype note_part = Txt string | Num pyfloat

record in_record =
  in_timestamp :: string
  in_asset :: "string option"
  in_exchange :: string
  in_holder :: string
  in_transaction_type :: string
  in_spot_price :: string
  crypto_in :: pyfloat
  in_crypto_fee :: pyfloat
  fiat_in_no_fee :: "pyfloat option"
  fiat_in_with_fee :: "pyfloat option"
  in_fiat_fee :: "pyfloat option"
  in_fiat_ticker :: "string option"  \<comment> \<open>\<open>None\<close>: the dict has no key \<^verbatim>\<open>fiat_ticker\<close>\<close>
  in_notes :: "note_part list"

record out_record =
  out_timestamp :: string
  out_asset :: "string option"
  out_exchange :: string
  out_holder :: string
  out_transaction_type :: string
  out_spot_price :: string
  crypto_out_no_fee :: pyfloat
  out_crypto_fee :: pyfloat
  crypto_out_with_fee :: pyfloat
  fiat_out_no_fee :: "pyfloat option"
  out_fiat_fee :: "pyfloat option"
  out_fiat_ticker :: string
  out_notes :: "note_part list"

record intra_record =
  intra_timestamp :: string
  intra_asset :: string
  from_exchange :: string
  from_holder :: string
  to_exchange :: string
  to_holder :: string
  intra_spot_price :: string
  crypto_sent :: pyfloat
  crypto_received :: pyfloat
  intra_notes :: "note_part list"

type_synonym ledgers = "in_record list \<times> out_record list \<times> intra_record list"

subsection \<open>Python primitives\<close>

definition bind_result :: "py_error + 'a \<Rightarrow> ('a \<Rightarrow> py_error + 'b) \<Rightarrow> py_error + 'b" where
  "bind_result m f = (case m of Inl e \<Rightarrow> Inl e | Inr v \<Rightarrow> f v)"

definition float_of :: "pylib \<Rightarrow> string \<Rightarrow> py_error + pyfloat" where
  "float_of lib s = (case py_float lib s of None \<Rightarrow> Inl (FloatError s) | Some x \<Rightarrow> Inr x)"

definition iso_timestamp_of :: "pylib \<Rightarrow> string \<Rightarrow> py_error + string" where
  "iso_timestamp_of lib s =
     (case py_isoformat lib s of None \<Rightarrow> Inl (TimeFormatError s) | Some t \<Rightarrow> Inr t)"

text \<open>\<^verbatim>\<open>rec.get("Remark", default)\<close>\<close>

definition remark_get :: "raw_record \<Rightarrow> string \<Rightarrow> string" where
  "remark_get rec dflt = (case Remark rec of None \<Rightarrow> dflt | Some s \<Rightarrow> s)"

text \<open>\<^verbatim>\<open>sub in s\<close> on strings\<close>

fun py_in :: "string \<Rightarrow> string \<Rightarrow> bool" where
  "py_in sub [] = (sub = [])"
| "py_in sub (c # cs) = (take (length sub) (c # cs) = sub \<or> py_in sub cs)"

text \<open>
  \<^verbatim>\<open>s.split(sep)\<close>: the string is cut at every occurrence of the separator, found from
  left to right without overlap. \<open>cur\<close> is the piece being read.
\<close>

function split_from :: "string \<Rightarrow> string \<Rightarrow> string \<Rightarrow> string list" where
  "split_from sep cur [] = [cur]"
| "split_from sep cur (c # cs) =
     (if sep \<noteq> [] \<and> take (length sep) (c # cs) = sep
      then cur # split_from sep [] (drop (length sep) (c # cs))
      else split_from sep (cur @ [c]) cs)"
  by pat_completeness auto
termination
  by (relation "measure (\<lambda>(sep, cur, s). length s)") (auto simp: neq_Nil_conv)

definition py_split :: "string \<Rightarrow> string \<Rightarrow> py_error + string list" where
  "py_split sep s = (if sep = [] then Inl SeparatorError else Inr (split_from sep [] s))"

text \<open>\<^verbatim>\<open>not v\<close> for a value that is \<^verbatim>\<open>None\<close> or a string: true for \<^verbatim>\<open>None\<close> and for \<^verbatim>\<open>""\<close>\<close>

definition py_not :: "string option \<Rightarrow> bool" where
  "py_not v = (case v of None \<Rightarrow> True | Some s \<Rightarrow> s = [])"

text \<open>\<^verbatim>\<open>str(v)\<close> inside an f-string, for a value that is \<^verbatim>\<open>None\<close> or a string\<close>

definition py_str :: "string option \<Rightarrow> string" where
  "py_str v = (case v of None \<Rightarrow> ''None'' | Some s \<Rightarrow> s)"

subsection \<open>group\_transactions\_by\_time\<close>

text \<open>
  The \<^verbatim>\<open>defaultdict(list)\<close> keeps its keys in insertion order: an association list, a new
  timestamp added at the end, a row appended to the list of its timestamp.
\<close>

fun group_append :: "raw_record \<Rightarrow> (string \<times> raw_record list) list \<Rightarrow> (string \<times> raw_record list) list" where
  "group_append rec [] = [(UTC_Time rec, [rec])]"
| "group_append rec ((t, rs) # gs) =
     (if t = UTC_Time rec then (t, rs @ [rec]) # gs else (t, rs) # group_append rec gs)"

definition group_transactions_by_time :: "raw_record list \<Rightarrow> (string \<times> raw_record list) list" where
  "group_transactions_by_time records = foldl (\<lambda>grouped rec. group_append rec grouped) [] records"

subsection \<open>process\_transaction\_group\<close>

text \<open>The dict appended for a \<^verbatim>\<open>Binance Convert\<close> row with a positive amount (lines 122-136).\<close>

definition convert_in :: "string \<Rightarrow> string \<Rightarrow> string \<Rightarrow> string \<Rightarrow> pyfloat \<Rightarrow> in_record" where
  "convert_in iso_timestamp holder exchange asset amount =
     \<lparr> in_timestamp = iso_timestamp, in_asset = Some asset, in_exchange = exchange,
       in_holder = holder, in_transaction_type = ''BUY'', in_spot_price = ''__unknown'',
       crypto_in = amount, in_crypto_fee = 0, fiat_in_no_fee = None,
       fiat_in_with_fee = None, in_fiat_fee = None, in_fiat_ticker = None,
       in_notes = [Txt ''Converted to '', Num amount, Txt '' '', Txt asset] \<rparr>"

text \<open>The dict appended for a \<^verbatim>\<open>Binance Convert\<close> row otherwise (lines 141-156).\<close>

definition convert_out :: "string \<Rightarrow> string \<Rightarrow> string \<Rightarrow> string \<Rightarrow> pyfloat \<Rightarrow> out_record" where
  "convert_out iso_timestamp holder exchange asset abs_amount =
     \<lparr> out_timestamp = iso_timestamp, out_asset = Some asset, out_exchange = exchange,
       out_holder = holder, out_transaction_type = ''SELL'', out_spot_price = ''__unknown'',
       crypto_out_no_fee = abs_amount, out_crypto_fee = 0, crypto_out_with_fee = abs_amount,
       fiat_out_no_fee = None, out_fiat_fee = None, out_fiat_ticker = [],
       out_notes = [Txt ''Converted '', Num abs_amount, Txt '' '', Txt asset] \<rparr>"

text \<open>The loop over \<^verbatim>\<open>convert_recs\<close> (lines 114-156).\<close>

fun convert_loop :: "pylib \<Rightarrow> string \<Rightarrow> string \<Rightarrow> string \<Rightarrow> raw_record list \<Rightarrow> ledgers \<Rightarrow> py_error + ledgers" where
  "convert_loop lib iso_timestamp holder exchange [] txs = Inr txs"
| "convert_loop lib iso_timestamp holder exchange (rec # recs) (ins, outs, intras) =
     (case float_of lib (Change rec) of
        Inl e \<Rightarrow> Inl e
      | Inr amount \<Rightarrow>
          if amount > 0
          then convert_loop lib iso_timestamp holder exchange recs
                 (ins @ [convert_in iso_timestamp holder exchange (Coin rec) amount], outs, intras)
          else convert_loop lib iso_timestamp holder exchange recs
                 (ins, outs @ [convert_out iso_timestamp holder exchange (Coin rec) (abs amount)], intras))"

text \<open>The dict appended for a \<^verbatim>\<open>Deposit\<close> row with a positive amount (lines 169-181).\<close>

definition deposit_intra :: "string \<Rightarrow> string \<Rightarrow> string \<Rightarrow> raw_record \<Rightarrow> pyfloat \<Rightarrow> intra_record" where
  "deposit_intra iso_timestamp holder exchange rec amount =
     \<lparr> intra_timestamp = iso_timestamp, intra_asset = Coin rec, from_exchange = ''External'',
       from_holder = holder, to_exchange = exchange, to_holder = holder,
       intra_spot_price = ''__unknown'', crypto_sent = amount, crypto_received = amount,
       intra_notes = [Txt (''Deposit of '' @ Coin rec @
          (if py_in ''Mining'' (remark_get rec []) then '' (Mining)'' else []))] \<rparr>"

text \<open>The loop over \<^verbatim>\<open>deposit_recs\<close> (lines 161-181).\<close>

fun deposit_loop :: "pylib \<Rightarrow> string \<Rightarrow> string \<Rightarrow> string \<Rightarrow> raw_record list \<Rightarrow> ledgers \<Rightarrow> py_error + ledgers" where
  "deposit_loop lib iso_timestamp holder exchange [] txs = Inr txs"
| "deposit_loop lib iso_timestamp holder exchange (rec # recs) (ins, outs, intras) =
     (case float_of lib (Change rec) of
        Inl e \<Rightarrow> Inl e
      | Inr amount \<Rightarrow>
          if amount \<le> 0
          then deposit_loop lib iso_timestamp holder exchange recs (ins, outs, intras)
          else deposit_loop lib iso_timestamp holder exchange recs
                 (ins, outs, intras @ [deposit_intra iso_timestamp holder exchange rec amount]))"

text \<open>The dict appended for a \<^verbatim>\<open>Withdraw\<close> row (lines 191-206).\<close>

definition withdraw_out :: "string \<Rightarrow> string \<Rightarrow> string \<Rightarrow> raw_record \<Rightarrow> pyfloat \<Rightarrow> out_record" where
  "withdraw_out iso_timestamp holder exchange rec amount =
     \<lparr> out_timestamp = iso_timestamp, out_asset = Some (Coin rec), out_exchange = exchange,
       out_holder = holder, out_transaction_type = ''SELL'', out_spot_price = ''__unknown'',
       crypto_out_no_fee = amount, out_crypto_fee = 0, crypto_out_with_fee = amount,
       fiat_out_no_fee = None, out_fiat_fee = None, out_fiat_ticker = ''USD'',
       out_notes = [Txt (remark_get rec ''Withdrawal'')] \<rparr>"

text \<open>The loop over \<^verbatim>\<open>withdraw_recs\<close> (lines 186-206).\<close>

fun withdraw_loop :: "pylib \<Rightarrow> string \<Rightarrow> string \<Rightarrow> string \<Rightarrow> raw_record list \<Rightarrow> ledgers \<Rightarrow> py_error + ledgers" where
  "withdraw_loop lib iso_timestamp holder exchange [] txs = Inr txs"
| "withdraw_loop lib iso_timestamp holder exchange (rec # recs) (ins, outs, intras) =
     (case float_of lib (Change rec) of
        Inl e \<Rightarrow> Inl e
      | Inr x \<Rightarrow>
          withdraw_loop lib iso_timestamp holder exchange recs
            (ins, outs @ [withdraw_out iso_timestamp holder exchange rec (abs x)], intras))"

text \<open>
  The list comprehension of lines 215 and 264:
  \<^verbatim>\<open>[rec for rec in group if rec["Operation"] == "Transaction Fee" and float(rec["Change"]) < 0]\<close>.
  \<^verbatim>\<open>float\<close> is called on every \<^verbatim>\<open>Transaction Fee\<close> row of the group, in order.
\<close>

fun fee_recs_of :: "pylib \<Rightarrow> raw_record list \<Rightarrow> py_error + raw_record list" where
  "fee_recs_of lib [] = Inr []"
| "fee_recs_of lib (rec # recs) =
     (if Operation rec = ''Transaction Fee''
      then (case float_of lib (Change rec) of
              Inl e \<Rightarrow> Inl e
            | Inr x \<Rightarrow>
                (case fee_recs_of lib recs of
                   Inl e \<Rightarrow> Inl e
                 | Inr rs \<Rightarrow> Inr (if x < 0 then rec # rs else rs)))
      else fee_recs_of lib recs)"

text \<open>
  The loops of lines 222-226 and 270-274 over the Buy (Sold) rows. The state is the pair
  of \<^verbatim>\<open>bought_asset\<close> and \<^verbatim>\<open>bought_amount\<close> (\<^verbatim>\<open>sold_asset\<close> and \<^verbatim>\<open>sold_amount\<close>). The
  flag \<open>use_abs\<close> tells the two loops apart: the Buy loop adds \<^verbatim>\<open>float(rec["Change"])\<close>,
  the Sold loop adds its absolute value.
\<close>

fun asset_loop :: "pylib \<Rightarrow> bool \<Rightarrow> raw_record list \<Rightarrow> string option \<times> pyfloat \<Rightarrow> py_error + string option \<times> pyfloat" where
  "asset_loop lib use_abs [] st = Inr st"
| "asset_loop lib use_abs (rec # recs) (asset, amount) =
     (let asset' = (if py_not asset then Some (Coin rec) else asset) in
      if Some (Coin rec) = asset'
      then (case float_of lib (Change rec) of
              Inl e \<Rightarrow> Inl e
            | Inr x \<Rightarrow> asset_loop lib use_abs recs (asset', amount + (if use_abs then abs x else x)))
      else asset_loop lib use_abs recs (asset', amount))"

text \<open>The loops of lines 229-231 and 286-288 over \<^verbatim>\<open>fee_recs\<close>.\<close>

fun fee_loop :: "pylib \<Rightarrow> string option \<Rightarrow> raw_record list \<Rightarrow> pyfloat \<Rightarrow> py_error + pyfloat" where
  "fee_loop lib asset [] fee_amount = Inr fee_amount"
| "fee_loop lib asset (rec # recs) fee_amount =
     (if Some (Coin rec) = asset
      then (case float_of lib (Change rec) of
              Inl e \<Rightarrow> Inl e
            | Inr x \<Rightarrow> fee_loop lib asset recs (fee_amount + abs x))
      else fee_loop lib asset recs fee_amount)"

text \<open>The loop of lines 235-236 over \<^verbatim>\<open>spend_recs\<close>.\<close>

fun spend_loop :: "pylib \<Rightarrow> raw_record list \<Rightarrow> pyfloat \<Rightarrow> py_error + pyfloat" where
  "spend_loop lib [] spent_amount = Inr spent_amount"
| "spend_loop lib (rec # recs) spent_amount =
     (case float_of lib (Change rec) of
        Inl e \<Rightarrow> Inl e
      | Inr x \<Rightarrow> spend_loop lib recs (spent_amount + abs x))"

text \<open>The loop of lines 281-283 over \<^verbatim>\<open>revenue_recs\<close>.\<close>

fun revenue_loop :: "pylib \<Rightarrow> raw_record list \<Rightarrow> pyfloat \<times> string \<Rightarrow> py_error + pyfloat \<times> string" where
  "revenue_loop lib [] st = Inr st"
| "revenue_loop lib (rec # recs) (revenue_amount, revenue_asset) =
     (case float_of lib (Change rec) of
        Inl e \<Rightarrow> Inl e
      | Inr x \<Rightarrow> revenue_loop lib recs (revenue_amount + x, Coin rec))"

text \<open>The dict appended for the Buy rows of a group (lines 242-257).\<close>

definition buy_in :: "string \<Rightarrow> string \<Rightarrow> string \<Rightarrow> string option \<Rightarrow> pyfloat \<Rightarrow> pyfloat \<Rightarrow> pyfloat \<Rightarrow> in_record" where
  "buy_in iso_timestamp holder exchange bought_asset adjusted_bought fee_amount spent_amount =
     \<lparr> in_timestamp = iso_timestamp, in_asset = bought_asset, in_exchange = exchange,
       in_holder = holder, in_transaction_type = ''BUY'', in_spot_price = ''__unknown'',
       crypto_in = adjusted_bought, in_crypto_fee = fee_amount,
       fiat_in_no_fee = Some spent_amount, fiat_in_with_fee = Some spent_amount,
       in_fiat_fee = None, in_fiat_ticker = Some ''USDT'',
       in_notes = [Txt ''Bought '', Num adjusted_bought, Txt '' '', Txt (py_str bought_asset),
                   Txt '' for '', Num spent_amount, Txt '' USDT''] \<rparr>"

text \<open>The branch \<^verbatim>\<open>if "Transaction Buy" in operation_types\<close> (lines 211-257).\<close>

definition buy_case :: "pylib \<Rightarrow> string \<Rightarrow> string \<Rightarrow> string \<Rightarrow> raw_record list \<Rightarrow> ledgers \<Rightarrow> py_error + ledgers" where
  "buy_case lib iso_timestamp holder exchange grp txs =
     (case txs of (ins, outs, intras) \<Rightarrow>
      let buy_recs = filter (\<lambda>rec. Operation rec = ''Transaction Buy'') grp;
          spend_recs = filter (\<lambda>rec. Operation rec = ''Transaction Spend'') grp
      in bind_result (fee_recs_of lib grp) (\<lambda>fee_recs.
         bind_result (asset_loop lib False buy_recs (None, 0)) (\<lambda>(bought_asset, bought_amount).
         bind_result (fee_loop lib bought_asset fee_recs 0) (\<lambda>fee_amount.
         bind_result (spend_loop lib spend_recs 0) (\<lambda>spent_amount.
           let adjusted_bought = bought_amount - fee_amount
           in Inr (ins @ [buy_in iso_timestamp holder exchange bought_asset adjusted_bought
                            fee_amount spent_amount],
                   outs, intras))))))"

text \<open>The dict appended for the Sold rows of a group (lines 294-309).\<close>

definition sold_out :: "string \<Rightarrow> string \<Rightarrow> string \<Rightarrow> string option \<Rightarrow> pyfloat \<Rightarrow> pyfloat \<Rightarrow> pyfloat \<Rightarrow> string \<Rightarrow> out_record" where
  "sold_out iso_timestamp holder exchange sold_asset sold_amount adjusted_revenue fee_amount revenue_asset =
     \<lparr> out_timestamp = iso_timestamp, out_asset = sold_asset, out_exchange = exchange,
       out_holder = holder, out_transaction_type = ''SELL'', out_spot_price = ''__unknown'',
       crypto_out_no_fee = sold_amount, out_crypto_fee = 0, crypto_out_with_fee = sold_amount,
       fiat_out_no_fee = Some adjusted_revenue, out_fiat_fee = Some fee_amount,
       out_fiat_ticker = revenue_asset,
       out_notes = [Txt ''Sold '', Num sold_amount, Txt '' '', Txt (py_str sold_asset),
                    Txt '' for '', Num adjusted_revenue, Txt '' '', Txt revenue_asset] \<rparr>"

text \<open>The branch \<^verbatim>\<open>if "Transaction Sold" in operation_types\<close> (lines 260-309).\<close>

definition sold_case :: "pylib \<Rightarrow> string \<Rightarrow> string \<Rightarrow> string \<Rightarrow> raw_record list \<Rightarrow> ledgers \<Rightarrow> py_error + ledgers" where
  "sold_case lib iso_timestamp holder exchange grp txs =
     (case txs of (ins, outs, intras) \<Rightarrow>
      let sold_recs = filter (\<lambda>rec. Operation rec = ''Transaction Sold'') grp;
          revenue_recs = filter (\<lambda>rec. Operation rec = ''Transaction Revenue'') grp
      in bind_result (fee_recs_of lib grp) (\<lambda>fee_recs.
         bind_result (asset_loop lib True sold_recs (None, 0)) (\<lambda>(sold_asset, sold_amount).
         bind_result (revenue_loop lib revenue_recs (0, ''USDT'')) (\<lambda>(revenue_amount, revenue_asset).
         bind_result (fee_loop lib (Some revenue_asset) fee_recs 0) (\<lambda>fee_amount.
           let adjusted_revenue = revenue_amount - fee_amount
           in Inr (ins,
                   outs @ [sold_out iso_timestamp holder exchange sold_asset sold_amount
                             adjusted_revenue fee_amount revenue_asset],
                   intras))))))"

text \<open>
  \<^verbatim>\<open>process_transaction_group\<close> (lines 96-313). \<^verbatim>\<open>group[0]\<close> raises on an empty list and
  \<^verbatim>\<open>strptime\<close> raises on a timestamp that is not in the format, before any row is looked at.
\<close>

definition process_transaction_group :: "pylib \<Rightarrow> raw_record list \<Rightarrow> string \<Rightarrow> string \<Rightarrow> py_error + ledgers" where
  "process_transaction_group lib grp holder exchange =
     (case grp of
        [] \<Rightarrow> Inl IndexError
      | first # _ \<Rightarrow>
          bind_result (iso_timestamp_of lib (UTC_Time first)) (\<lambda>iso_timestamp.
          let operation_types = set (map Operation grp) in
          bind_result
            (if ''Binance Convert'' \<in> operation_types
             then convert_loop lib iso_timestamp holder exchange
                    (filter (\<lambda>rec. Operation rec = ''Binance Convert'') grp) ([], [], [])
             else Inr ([], [], [])) (\<lambda>txs1.
          bind_result
            (if ''Deposit'' \<in> operation_types
             then deposit_loop lib iso_timestamp holder exchange
                    (filter (\<lambda>rec. Operation rec = ''Deposit'') grp) txs1
             else Inr txs1) (\<lambda>txs2.
          bind_result
            (if ''Withdraw'' \<in> operation_types
             then withdraw_loop lib iso_timestamp holder exchange
                    (filter (\<lambda>rec. Operation rec = ''Withdraw'') grp) txs2
             else Inr txs2) (\<lambda>txs3.
          if ''Transaction Buy'' \<in> operation_types \<or> ''Transaction Sold'' \<in> operation_types
          then bind_result
                 (if ''Transaction Buy'' \<in> operation_types
                  then buy_case lib iso_timestamp holder exchange grp txs3
                  else Inr txs3) (\<lambda>txs4.
               if ''Transaction Sold'' \<in> operation_types
               then sold_case lib iso_timestamp holder exchange grp txs4
               else Inr txs4)
          else Inr txs3)))))"

subsection \<open>process\_rebranding\_pairs\<close>

text \<open>The dict appended for a matching pair (lines 389-401).\<close>

definition rebranding_intra :: "string \<Rightarrow> string \<Rightarrow> string \<Rightarrow> string \<Rightarrow> string \<Rightarrow> pyfloat \<Rightarrow> intra_record" where
  "rebranding_intra iso_timestamp holder exchange from_asset to_asset amount =
     \<lparr> intra_timestamp = iso_timestamp, intra_asset = from_asset, from_exchange = exchange,
       from_holder = holder, to_exchange = exchange, to_holder = holder,
       intra_spot_price = ''__unknown'', crypto_sent = amount, crypto_received = amount,
       intra_notes = [Txt (''Rebranding from '' @ from_asset @ '' to '' @ to_asset)] \<rparr>"

text \<open>The inner loop \<^verbatim>\<open>for swap_rec in swap_records\<close> (lines 378-401). It has no \<^verbatim>\<open>break\<close>.\<close>

fun swap_loop :: "pylib \<Rightarrow> string \<Rightarrow> string \<Rightarrow> string \<Rightarrow> string \<Rightarrow> raw_record list \<Rightarrow> intra_record list \<Rightarrow> py_error + intra_record list" where
  "swap_loop lib holder exchange from_asset to_asset [] intras = Inr intras"
| "swap_loop lib holder exchange from_asset to_asset (swap_rec # swap_records) intras =
     (if Coin swap_rec = from_asset
      then (case float_of lib (Change swap_rec) of
              Inl e \<Rightarrow> Inl e
            | Inr x \<Rightarrow>
                (case iso_timestamp_of lib (UTC_Time swap_rec) of
                   Inl e \<Rightarrow> Inl e
                 | Inr iso_timestamp \<Rightarrow>
                     swap_loop lib holder exchange from_asset to_asset swap_records
                       (intras @ [rebranding_intra iso_timestamp holder exchange from_asset to_asset (abs x)])))
      else swap_loop lib holder exchange from_asset to_asset swap_records intras)"

text \<open>
  The outer loop \<^verbatim>\<open>for dist_rec in distribution_records\<close> (lines 372-401).
  \<^verbatim>\<open>from_asset, to_asset = remark.split(" to ")\<close> raises ValueError unless the list has
  exactly two elements.
\<close>

fun dist_loop :: "pylib \<Rightarrow> string \<Rightarrow> string \<Rightarrow> raw_record list \<Rightarrow> raw_record list \<Rightarrow> intra_record list \<Rightarrow> py_error + intra_record list" where
  "dist_loop lib holder exchange swap_records [] intras = Inr intras"
| "dist_loop lib holder exchange swap_records (dist_rec # distribution_records) intras =
     (let remark = remark_get dist_rec [] in
      if py_in '' to '' remark
      then (case py_split '' to '' remark of
              Inl e \<Rightarrow> Inl e
            | Inr [from_asset, to_asset] \<Rightarrow>
                (case swap_loop lib holder exchange from_asset to_asset swap_records intras of
                   Inl e \<Rightarrow> Inl e
                 | Inr intras' \<Rightarrow> dist_loop lib holder exchange swap_records distribution_records intras')
            | Inr parts \<Rightarrow> Inl (UnpackError (length parts)))
      else dist_loop lib holder exchange swap_records distribution_records intras)"

definition process_rebranding_pairs :: "pylib \<Rightarrow> raw_record list \<Rightarrow> raw_record list \<Rightarrow> string \<Rightarrow> string \<Rightarrow> py_error + intra_record list" where
  "process_rebranding_pairs lib swap_records distribution_records holder exchange =
     dist_loop lib holder exchange swap_records distribution_records []"

subsection \<open>write\_output\_files and main\<close>

text \<open>
  The file system is a map from paths to file contents. A ledger file is the header row
  followed by one line per record, in order: its content is the list of records.
\<close>

datatype file_content =
  In_csv "in_record list"
| Out_csv "out_record list"
| Intra_csv "intra_record list"

type_synonym files = "string \<Rightarrow> file_content option"

text \<open>\<^verbatim>\<open>os.path.join(output_dir, name)\<close> for a relative \<open>name\<close>\<close>

definition path_join :: "string \<Rightarrow> string \<Rightarrow> string" where
  "path_join output_dir name =
     (if output_dir = [] \<or> last output_dir = CHR ''/'' then output_dir @ name
      else output_dir @ ''/'' @ name)"

definition write_output_files :: "in_record list \<Rightarrow> out_record list \<Rightarrow> intra_record list \<Rightarrow> string \<Rightarrow> files \<Rightarrow> files" where
  "write_output_files in_transactions out_transactions intra_transactions output_dir fs =
     fs(path_join output_dir ''in_csv_file.csv'' \<mapsto> In_csv in_transactions,
        path_join output_dir ''out_csv_file.csv'' \<mapsto> Out_csv out_transactions,
        path_join output_dir ''intra_csv_file.csv'' \<mapsto> Intra_csv intra_transactions)"

text \<open>A row that lines 419-420 select and lines 430-433 drop.\<close>

definition is_swap :: "raw_record \<Rightarrow> bool" where
  "is_swap rec = (Operation rec = ''Token Swap - Redenomination/Rebranding'')"

definition is_rebranding_distribution :: "raw_record \<Rightarrow> bool" where
  "is_rebranding_distribution rec =
     (Operation rec = ''Distribution'' \<and> py_in '' to '' (remark_get rec []))"

text \<open>Lines 426-435: the records that go on to the grouping.\<close>

definition filter_records :: "raw_record list \<Rightarrow> raw_record list" where
  "filter_records records =
     (let swap_records = filter is_swap records;
          distribution_records = filter is_rebranding_distribution records
      in if swap_records \<noteq> [] \<or> distribution_records \<noteq> []
         then filter (\<lambda>rec. \<not> is_swap rec \<and> \<not> is_rebranding_distribution rec) records
         else records)"

text \<open>The loop of lines 446-450 over the groups, in the order of the dict.\<close>

fun process_groups :: "pylib \<Rightarrow> string \<Rightarrow> string \<Rightarrow> (string \<times> raw_record list) list \<Rightarrow> ledgers \<Rightarrow> py_error + ledgers" where
  "process_groups lib holder exchange [] all_txs = Inr all_txs"
| "process_groups lib holder exchange ((timestamp, grp) # groups) (all_in, all_out, all_intra) =
     (case process_transaction_group lib grp holder exchange of
        Inl e \<Rightarrow> Inl e
      | Inr (in_txs, out_txs, intra_txs) \<Rightarrow>
          process_groups lib holder exchange groups
            (all_in @ in_txs, all_out @ out_txs, all_intra @ intra_txs))"

text \<open>Lines 418-450 of \<^verbatim>\<open>main\<close>: from the records read to the three lists handed to the writer.\<close>

definition classify_records :: "pylib \<Rightarrow> raw_record list \<Rightarrow> string \<Rightarrow> string \<Rightarrow> py_error + ledgers" where
  "classify_records lib records holder exchange =
     (let swap_records = filter is_swap records;
          distribution_records = filter is_rebranding_distribution records
      in bind_result (process_rebranding_pairs lib swap_records distribution_records holder exchange)
           (\<lambda>rebranding_intra_txs.
              process_groups lib holder exchange
                (group_transactions_by_time (filter_records records))
                ([], [], rebranding_intra_txs)))"

text \<open>
  \<^verbatim>\<open>main\<close> after the input file is read (lines 418-460). An exception of the classification
  is not caught: it ends the run with the file system as it was. Otherwise the three files
  are written and the exit status is 0.
\<close>

definition main :: "pylib \<Rightarrow> string \<Rightarrow> string \<Rightarrow> string \<Rightarrow> raw_record list \<Rightarrow> files \<Rightarrow> (py_error + int) \<times> files" where
  "main lib output_directory holder exchange records fs =
     (case classify_records lib records holder exchange of
        Inl e \<Rightarrow> (Inl e, fs)
      | Inr (all_in, all_out, all_intra) \<Rightarrow>
          (Inr 0, write_output_files all_in all_out all_intra output_directory fs))"

subsection \<open>A library instance for the worked examples\<close>

text \<open>
  The worked examples below need a concrete \<open>pylib\<close>. \<open>decimal_of\<close> reads a plain decimal
  numeral (an optional sign, digits, an optional point and digits) and \<open>iso_of\<close> reads a
  timestamp written with four, two, two, two, two and two digits. On the strings they
  accept they agree with \<^verbatim>\<open>float\<close> and with \<^verbatim>\<open>strptime\<close> followed by \<^verbatim>\<open>strftime\<close>;
  Python accepts more (exponents, surrounding blanks, one-digit months), which the
  examples do not use. The general theorems hold for every \<open>pylib\<close>.
\<close>

text \<open>The position of a character in a string, counted from \<open>n\<close>.\<close>

fun position_from :: "nat \<Rightarrow> char \<Rightarrow> string \<Rightarrow> nat option" where
  "position_from n c [] = None"
| "position_from n c (d # ds) = (if c = d then Some n else position_from (Suc n) c ds)"

definition digit_of :: "char \<Rightarrow> nat option" where
  "digit_of c = position_from 0 c ''0123456789''"

fun digits_of :: "string \<Rightarrow> nat \<Rightarrow> nat option" where
  "digits_of [] acc = Some acc"
| "digits_of (c # cs) acc =
     (case digit_of c of None \<Rightarrow> None | Some d \<Rightarrow> digits_of cs (10 * acc + d))"

definition unsigned_decimal_of :: "string \<Rightarrow> rat option" where
  "unsigned_decimal_of s =
     (let int_part = takeWhile (\<lambda>c. c \<noteq> CHR ''.'') s;
          rest = dropWhile (\<lambda>c. c \<noteq> CHR ''.'') s;
          frac_part = (case rest of [] \<Rightarrow> [] | _ # t \<Rightarrow> t)
      in if int_part = [] \<and> frac_part = [] then None
         else (case (digits_of int_part 0, digits_of frac_part 0) of
                 (Some i, Some f) \<Rightarrow> Some (of_nat i + of_nat f / 10 ^ length frac_part)
               | _ \<Rightarrow> None))"

definition decimal_of :: "string \<Rightarrow> rat option" where
  "decimal_of s =
     (case s of
        [] \<Rightarrow> None
      | c # t \<Rightarrow>
          if c = CHR ''-'' then map_option uminus (unsigned_decimal_of t)
          else if c = CHR ''+'' then unsigned_decimal_of t
          else unsigned_decimal_of s)"

definition days_in_month :: "nat \<Rightarrow> nat \<Rightarrow> nat" where
  "days_in_month y m =
     (if m = 2 then (if y mod 4 = 0 \<and> (y mod 100 \<noteq> 0 \<or> y mod 400 = 0) then 29 else 28)
      else if m = 4 \<or> m = 6 \<or> m = 9 \<or> m = 11 then 30 else 31)"

definition iso_of :: "string \<Rightarrow> string option" where
  "iso_of s =
     (if length s = 19 \<and> s ! 4 = CHR ''-'' \<and> s ! 7 = CHR ''-'' \<and> s ! 10 = CHR '' '' \<and>
         s ! 13 = CHR '':'' \<and> s ! 16 = CHR '':''
      then (case (digits_of (take 4 s) 0, digits_of (take 2 (drop 5 s)) 0,
                  digits_of (take 2 (drop 8 s)) 0, digits_of (take 2 (drop 11 s)) 0,
                  digits_of (take 2 (drop 14 s)) 0, digits_of (take 2 (drop 17 s)) 0) of
              (Some y, Some m, Some d, Some hh, Some mm, Some ss) \<Rightarrow>
                if 1000 \<le> y \<and> 1 \<le> m \<and> m \<le> 12 \<and> 1 \<le> d \<and> d \<le> days_in_month y m \<and>
                   hh \<le> 23 \<and> mm \<le> 59 \<and> ss \<le> 59
                then Some (take 10 s @ ''T'' @ drop 11 s @ ''Z'')
                else None
            | _ \<Rightarrow> None)
      else None)"

text \<open>\<^verbatim>\<open>float\<close> on \<^verbatim>\<open>nan\<close>, \<^verbatim>\<open>inf\<close>, \<^verbatim>\<open>-inf\<close> and the plain decimal numerals\<close>

definition float_literal_of :: "string \<Rightarrow> pyfloat option" where
  "float_literal_of s =
     (if s = ''nan'' then Some NaN
      else if s = ''inf'' then Some PosInf
      else if s = ''-inf'' then Some NegInf
      else map_option Finite (decimal_of s))"

definition decimal_lib :: pylib where
  "decimal_lib = \<lparr> py_float = float_literal_of, py_isoformat = iso_of \<rparr>"

section \<open>Properties\<close>

subsection \<open>Reading a row's amount\<close>

text \<open>
  \<open>numeric lib rec\<close>: \<^verbatim>\<open>float(rec["Change"])\<close> returns. \<open>change_of lib rec\<close> is the number it
  returns (and 0 where it raises, so that the function is total).
\<close>

definition numeric :: "pylib \<Rightarrow> raw_record \<Rightarrow> bool" where
  "numeric lib rec = (py_float lib (Change rec) \<noteq> None)"

definition change_of :: "pylib \<Rightarrow> raw_record \<Rightarrow> pyfloat" where
  "change_of lib rec = (case py_float lib (Change rec) of None \<Rightarrow> 0 | Some x \<Rightarrow> x)"

definition signed :: "bool \<Rightarrow> pyfloat \<Rightarrow> pyfloat" where
  "signed use_abs x = (if use_abs then abs x else x)"

text \<open>The three per-row patterns, as list comprehensions over the group.\<close>

definition convert_ins :: "pylib \<Rightarrow> string \<Rightarrow> string \<Rightarrow> string \<Rightarrow> raw_record list \<Rightarrow> in_record list" where
  "convert_ins lib ts h e grp =
     map (\<lambda>r. convert_in ts h e (Coin r) (change_of lib r))
       (filter (\<lambda>r. Operation r = ''Binance Convert'' \<and> change_of lib r > 0) grp)"

definition convert_outs :: "pylib \<Rightarrow> string \<Rightarrow> string \<Rightarrow> string \<Rightarrow> raw_record list \<Rightarrow> out_record list" where
  "convert_outs lib ts h e grp =
     map (\<lambda>r. convert_out ts h e (Coin r) (abs (change_of lib r)))
       (filter (\<lambda>r. Operation r = ''Binance Convert'' \<and> \<not> change_of lib r > 0) grp)"

definition deposit_intras :: "pylib \<Rightarrow> string \<Rightarrow> string \<Rightarrow> string \<Rightarrow> raw_record list \<Rightarrow> intra_record list" where
  "deposit_intras lib ts h e grp =
     map (\<lambda>r. deposit_intra ts h e r (change_of lib r))
       (filter (\<lambda>r. Operation r = ''Deposit'' \<and> \<not> change_of lib r \<le> 0) grp)"

definition withdraw_outs :: "pylib \<Rightarrow> string \<Rightarrow> string \<Rightarrow> string \<Rightarrow> raw_record list \<Rightarrow> out_record list" where
  "withdraw_outs lib ts h e grp =
     map (\<lambda>r. withdraw_out ts h e r (abs (change_of lib r)))
       (filter (\<lambda>r. Operation r = ''Withdraw'') grp)"

text \<open>A row without the \<^verbatim>\<open>Remark\<close> key, for the worked examples.\<close>

definition row :: "string \<Rightarrow> string \<Rightarrow> string \<Rightarrow> string \<Rightarrow> raw_record" where
  "row t op c ch = \<lparr> UTC_Time = t, Operation = op, Coin = c, Change = ch, Remark = None \<rparr>"

text \<open>
  Total readings of the matcher and of the classifier, used to state what they return:
  the converted timestamp of a row, the two assets a Distribution remark names, the
  Transfer records of one Distribution row, and the three lists of one group.
\<close>

definition iso_timestamp :: "pylib \<Rightarrow> raw_record \<Rightarrow> string" where
  "iso_timestamp lib rec = (case py_isoformat lib (UTC_Time rec) of None \<Rightarrow> [] | Some t \<Rightarrow> t)"

definition rename_of :: "raw_record \<Rightarrow> (string \<times> string) option" where
  "rename_of dist_rec =
     (case py_split '' to '' (remark_get dist_rec []) of
        Inr [from_asset, to_asset] \<Rightarrow> Some (from_asset, to_asset)
      | _ \<Rightarrow> None)"

definition rebranding_intras :: "pylib \<Rightarrow> string \<Rightarrow> string \<Rightarrow> raw_record list \<Rightarrow> raw_record \<Rightarrow> intra_record list" where
  "rebranding_intras lib h e swap_records dist_rec =
     (case rename_of dist_rec of
        None \<Rightarrow> []
      | Some (from_asset, to_asset) \<Rightarrow>
          map (\<lambda>s. rebranding_intra (iso_timestamp lib s) h e from_asset to_asset (abs (change_of lib s)))
            (filter (\<lambda>s. Coin s = from_asset) swap_records))"

definition group_ins :: "pylib \<Rightarrow> string \<Rightarrow> string \<Rightarrow> raw_record list \<Rightarrow> in_record list" where
  "group_ins lib h e grp =
     (case process_transaction_group lib grp h e of Inl _ \<Rightarrow> [] | Inr (ins, outs, intras) \<Rightarrow> ins)"

definition group_outs :: "pylib \<Rightarrow> string \<Rightarrow> string \<Rightarrow> raw_record list \<Rightarrow> out_record list" where
  "group_outs lib h e grp =
     (case process_transaction_group lib grp h e of Inl _ \<Rightarrow> [] | Inr (ins, outs, intras) \<Rightarrow> outs)"

definition group_intras :: "pylib \<Rightarrow> string \<Rightarrow> string \<Rightarrow> raw_record list \<Rightarrow> intra_record list" where
  "group_intras lib h e grp =
     (case process_transaction_group lib grp h e of Inl _ \<Rightarrow> [] | Inr (ins, outs, intras) \<Rightarrow> intras)"

definition group_ok :: "pylib \<Rightarrow> string \<Rightarrow> string \<Rightarrow> raw_record list \<Rightarrow> bool" where
  "group_ok lib h e grp =
     (case process_transaction_group lib grp h e of Inl _ \<Rightarrow> False | Inr _ \<Rightarrow> True)"

definition swap_row :: "string \<Rightarrow> string \<Rightarrow> string \<Rightarrow> raw_record" where
  "swap_row t c ch = row t ''Token Swap - Redenomination/Rebranding'' c ch"

definition distribution_row :: "string \<Rightarrow> string \<Rightarrow> string \<Rightarrow> string \<Rightarrow> raw_record" where
  "distribution_row t c ch rm =
     \<lparr> UTC_Time = t, Operation = ''Distribution'', Coin = c, Change = ch, Remark = Some rm \<rparr>"

text \<open>The unfoldings that evaluate a run on concrete rows.\<close>

lemmas run_defs =
  classify_records_def process_rebranding_pairs_def filter_records_def
  group_transactions_by_time_def process_transaction_group_def buy_case_def sold_case_def
  is_swap_def is_rebranding_distribution_def remark_get_def py_split_def py_not_def
  iso_timestamp_of_def float_of_def row_def swap_row_def distribution_row_def
  decimal_lib_def iso_of_def float_literal_of_def decimal_of_def
  unsigned_decimal_of_def digit_of_def days_in_month_def Let_def
  zero_pyfloat_def minus_pyfloat_def less_eq_pyfloat_def

text \<open>
  The sums the specification names for the Buy and the Sold pattern, over the rows of a
  group.
\<close>

definition bought_amount_of :: "pylib \<Rightarrow> string \<Rightarrow> raw_record list \<Rightarrow> pyfloat" where
  "bought_amount_of lib asset grp =
     sum_list (map (change_of lib)
       (filter (\<lambda>r. Operation r = ''Transaction Buy'' \<and> Coin r = asset) grp))"

definition sold_amount_of :: "pylib \<Rightarrow> string \<Rightarrow> raw_record list \<Rightarrow> pyfloat" where
  "sold_amount_of lib asset grp =
     sum_list (map (\<lambda>r. abs (change_of lib r))
       (filter (\<lambda>r. Operation r = ''Transaction Sold'' \<and> Coin r = asset) grp))"

definition fee_amount_of :: "pylib \<Rightarrow> string \<Rightarrow> raw_record list \<Rightarrow> pyfloat" where
  "fee_amount_of lib asset grp =
     sum_list (map (\<lambda>r. abs (change_of lib r))
       (filter (\<lambda>r. Operation r = ''Transaction Fee'' \<and> change_of lib r < 0 \<and> Coin r = asset) grp))"

definition spent_amount_of :: "pylib \<Rightarrow> raw_record list \<Rightarrow> pyfloat" where
  "spent_amount_of lib grp =
     sum_list (map (\<lambda>r. abs (change_of lib r))
       (filter (\<lambda>r. Operation r = ''Transaction Spend'') grp))"

definition revenue_amount_of :: "pylib \<Rightarrow> raw_record list \<Rightarrow> pyfloat" where
  "revenue_amount_of lib grp =
     sum_list (map (change_of lib) (filter (\<lambda>r. Operation r = ''Transaction Revenue'') grp))"

definition revenue_asset_of :: "raw_record list \<Rightarrow> string" where
  "revenue_asset_of grp =
     (case rev (filter (\<lambda>r. Operation r = ''Transaction Revenue'') grp) of
        [] \<Rightarrow> ''USDT''
      | r # _ \<Rightarrow> Coin r)"

text \<open>
  The rows whose \<^verbatim>\<open>Change\<close> a run passes to \<^verbatim>\<open>float\<close> (if it gets that far).
  In a group: every Convert, Deposit and Withdraw row; every Fee row when the group has a
  Buy or a Sold row (lines 215, 264); every Spend row when it has a Buy row; every Revenue
  row when it has a Sold row; the first Buy (Sold) row, and every Buy (Sold) row with the
  non-empty asset of the first. In the matcher: a swap row whose asset is the old asset of
  some Distribution remark.
\<close>

definition old_asset_of :: "raw_record \<Rightarrow> string option" where
  "old_asset_of dist_rec = map_option fst (rename_of dist_rec)"

definition selected_by_first :: "string \<Rightarrow> raw_record list \<Rightarrow> raw_record \<Rightarrow> bool" where
  "selected_by_first op grp r =
     (case filter (\<lambda>x. Operation x = op) grp of
        [] \<Rightarrow> False
      | b # _ \<Rightarrow> Operation r = op \<and> Coin r = Coin b \<and> (Coin b \<noteq> [] \<or> r = b))"

definition parsed_in_group :: "raw_record list \<Rightarrow> raw_record \<Rightarrow> bool" where
  "parsed_in_group grp r =
     (let operation_types = set (map Operation grp)
      in Operation r = ''Binance Convert'' \<or> Operation r = ''Deposit'' \<or>
         Operation r = ''Withdraw'' \<or>
         (Operation r = ''Transaction Fee'' \<and>
            (''Transaction Buy'' \<in> operation_types \<or> ''Transaction Sold'' \<in> operation_types)) \<or>
         (Operation r = ''Transaction Spend'' \<and> ''Transaction Buy'' \<in> operation_types) \<or>
         (Operation r = ''Transaction Revenue'' \<and> ''Transaction Sold'' \<in> operation_types) \<or>
         selected_by_first ''Transaction Buy'' grp r \<or>
         selected_by_first ''Transaction Sold'' grp r)"

definition change_is_parsed :: "raw_record list \<Rightarrow> raw_record \<Rightarrow> bool" where
  "change_is_parsed records r =
     (if is_swap r
      then list_ex (\<lambda>d. old_asset_of d = Some (Coin r))
             (filter is_rebranding_distribution records)
      else \<not> is_rebranding_distribution r \<and>
           parsed_in_group
             (filter (\<lambda>x. UTC_Time x = UTC_Time r) (filter_records records)) r)"

text \<open>
  A row of the rebranding pattern without a partner among the other records: a swap row
  whose asset is the old asset of no Distribution remark, or a Distribution row whose
  remark names an old asset that no swap row has.
\<close>

definition unmatched :: "raw_record \<Rightarrow> raw_record list \<Rightarrow> bool" where
  "unmatched r others =
     (if is_swap r
      then list_all (\<lambda>d. old_asset_of d \<noteq> Some (Coin r))
             (filter is_rebranding_distribution others)
      else (case old_asset_of r of
              None \<Rightarrow> False
            | Some from_asset \<Rightarrow>
                list_all (\<lambda>s. Coin s \<noteq> from_asset) (filter is_swap others)))"

subsection \<open>Signs of floats\<close>

lemma zero_less_zero_pyfloat [simp]: "\<not> (0::pyfloat) < 0"
  by (simp add: zero_pyfloat_def)

lemma abs_zero_pyfloat [simp]: "abs (0::pyfloat) = 0"
  by (simp add: zero_pyfloat_def)

lemma zero_le_zero_pyfloat [simp]: "(0::pyfloat) \<le> 0"
  by (simp add: zero_pyfloat_def less_eq_pyfloat_def)

lemma abs_nonneg_pyfloat: "x \<noteq> NaN \<Longrightarrow> 0 \<le> abs (x::pyfloat)"
  by (cases x) (auto simp: zero_pyfloat_def less_eq_pyfloat_def)

lemma add_nonneg_pyfloat: "0 \<le> x \<Longrightarrow> 0 \<le> y \<Longrightarrow> 0 \<le> x + (y::pyfloat)"
  by (cases x; cases y) (auto simp: zero_pyfloat_def less_eq_pyfloat_def)

lemma not_nonneg_NaN [simp]: "\<not> 0 \<le> NaN"
  by (simp add: zero_pyfloat_def less_eq_pyfloat_def)

subsection \<open>The result type\<close>

lemma bind_result_Inl [simp]: "bind_result (Inl e) f = Inl e"
  by (simp add: bind_result_def)

lemma bind_result_Inr [simp]: "bind_result (Inr v) f = f v"
  by (simp add: bind_result_def)

lemma bind_result_eq_Inr:
  "bind_result m f = Inr y \<longleftrightarrow> (\<exists>x. m = Inr x \<and> f x = Inr y)"
  by (cases m) simp_all

lemma float_of_eq_Inr:
  "float_of lib (Change rec) = Inr x \<longleftrightarrow> numeric lib rec \<and> change_of lib rec = x"
  by (auto simp: float_of_def numeric_def change_of_def split: option.splits)

lemma float_of_eq_Inl: "float_of lib (Change rec) = Inl e \<Longrightarrow> \<not> numeric lib rec"
  by (auto simp: float_of_def numeric_def split: option.splits)

subsection \<open>What the loops return\<close>

lemma convert_loop_Inr:
  "convert_loop lib ts h e recs (ins, outs, intras) = Inr (ins', outs', intras') \<Longrightarrow>
   list_all (numeric lib) recs \<and>
   ins' = ins @ map (\<lambda>r. convert_in ts h e (Coin r) (change_of lib r))
                 (filter (\<lambda>r. change_of lib r > 0) recs) \<and>
   outs' = outs @ map (\<lambda>r. convert_out ts h e (Coin r) (abs (change_of lib r)))
                 (filter (\<lambda>r. \<not> change_of lib r > 0) recs) \<and>
   intras' = intras"
proof (induction recs arbitrary: ins outs)
  case Nil
  then show ?case by simp
next
  case (Cons r recs)
  from Cons.prems show ?case
    by (auto simp: float_of_eq_Inr split: sum.splits if_splits dest!: Cons.IH)
qed

lemma deposit_loop_Inr:
  "deposit_loop lib ts h e recs (ins, outs, intras) = Inr (ins', outs', intras') \<Longrightarrow>
   list_all (numeric lib) recs \<and> ins' = ins \<and> outs' = outs \<and>
   intras' = intras @ map (\<lambda>r. deposit_intra ts h e r (change_of lib r))
                 (filter (\<lambda>r. \<not> change_of lib r \<le> 0) recs)"
proof (induction recs arbitrary: intras)
  case Nil
  then show ?case by simp
next
  case (Cons r recs)
  from Cons.prems show ?case
    by (auto simp: float_of_eq_Inr split: sum.splits if_splits dest!: Cons.IH)
qed

lemma withdraw_loop_Inr:
  "withdraw_loop lib ts h e recs (ins, outs, intras) = Inr (ins', outs', intras') \<Longrightarrow>
   list_all (numeric lib) recs \<and> ins' = ins \<and> intras' = intras \<and>
   outs' = outs @ map (\<lambda>r. withdraw_out ts h e r (abs (change_of lib r))) recs"
proof (induction recs arbitrary: outs)
  case Nil
  then show ?case by simp
next
  case (Cons r recs)
  from Cons.prems show ?case
    by (auto simp: float_of_eq_Inr split: sum.splits if_splits dest!: Cons.IH)
qed

lemma fee_recs_of_Inr:
  "fee_recs_of lib grp = Inr rs \<Longrightarrow>
   list_all (numeric lib) (filter (\<lambda>r. Operation r = ''Transaction Fee'') grp) \<and>
   rs = filter (\<lambda>r. Operation r = ''Transaction Fee'' \<and> change_of lib r < 0) grp"
proof (induction grp arbitrary: rs)
  case Nil
  then show ?case by simp
next
  case (Cons r grp)
  from Cons.prems show ?case
    by (auto simp: float_of_eq_Inr split: sum.splits if_splits dest!: Cons.IH)
qed

lemma spend_loop_Inr:
  "spend_loop lib recs s = Inr s' \<Longrightarrow>
   list_all (numeric lib) recs \<and> s' = s + sum_list (map (\<lambda>r. abs (change_of lib r)) recs)"
proof (induction recs arbitrary: s)
  case Nil
  then show ?case by simp
next
  case (Cons r recs)
  from Cons.prems show ?case
    by (auto simp: float_of_eq_Inr add.assoc split: sum.splits dest!: Cons.IH)
qed

lemma fee_loop_Inr:
  "fee_loop lib asset recs f = Inr f' \<Longrightarrow>
   list_all (numeric lib) (filter (\<lambda>r. Some (Coin r) = asset) recs) \<and>
   f' = f + sum_list (map (\<lambda>r. abs (change_of lib r)) (filter (\<lambda>r. Some (Coin r) = asset) recs))"
proof (induction recs arbitrary: f)
  case Nil
  then show ?case by simp
next
  case (Cons r recs)
  show ?case
  proof (cases "Some (Coin r) = asset")
    case True
    with Cons.prems obtain x where x: "float_of lib (Change r) = Inr x"
      and rest: "fee_loop lib asset recs (f + abs x) = Inr f'"
      by (auto split: sum.splits)
    from Cons.IH [OF rest] x True show ?thesis
      by (simp add: float_of_eq_Inr add.assoc)
  next
    case False
    with Cons.prems have "fee_loop lib asset recs f = Inr f'" by simp
    from Cons.IH [OF this] False show ?thesis by simp
  qed
qed

lemma revenue_loop_Inr:
  "revenue_loop lib recs (amt, asset) = Inr (amt', asset') \<Longrightarrow>
   list_all (numeric lib) recs \<and> amt' = amt + sum_list (map (change_of lib) recs) \<and>
   asset' = (if recs = [] then asset else Coin (last recs))"
proof (induction recs arbitrary: amt asset)
  case Nil
  then show ?case by simp
next
  case (Cons r recs)
  from Cons.prems show ?case
    by (auto simp: float_of_eq_Inr add.assoc split: sum.splits if_splits dest!: Cons.IH)
qed

lemma asset_loop_set:
  "a \<noteq> [] \<Longrightarrow> asset_loop lib ua recs (Some a, amt) = Inr (asset', amt') \<Longrightarrow>
   list_all (numeric lib) (filter (\<lambda>r. Coin r = a) recs) \<and> asset' = Some a \<and>
   amt' = amt + sum_list (map (\<lambda>r. signed ua (change_of lib r)) (filter (\<lambda>r. Coin r = a) recs))"
proof (induction recs arbitrary: amt)
  case Nil
  then show ?case by simp
next
  case (Cons r recs)
  show ?case
  proof (cases "Coin r = a")
    case True
    with Cons.prems obtain x where x: "float_of lib (Change r) = Inr x"
      and rest: "asset_loop lib ua recs (Some a, amt + signed ua x) = Inr (asset', amt')"
      by (auto simp: py_not_def signed_def split: sum.splits)
    from Cons.IH [OF Cons.prems(1) rest] x True show ?thesis
      by (simp add: float_of_eq_Inr add.assoc)
  next
    case False
    with Cons.prems have "asset_loop lib ua recs (Some a, amt) = Inr (asset', amt')"
      by (simp add: py_not_def)
    from Cons.IH [OF Cons.prems(1) this] False show ?thesis by simp
  qed
qed

lemma asset_loop_first:
  assumes "asset_loop lib ua (r # recs) (None, 0) = Inr (asset', amt')" and "Coin r \<noteq> []"
  shows "list_all (numeric lib) (filter (\<lambda>x. Coin x = Coin r) (r # recs)) \<and> asset' = Some (Coin r) \<and>
   amt' = sum_list (map (\<lambda>x. signed ua (change_of lib x)) (filter (\<lambda>x. Coin x = Coin r) (r # recs)))"
proof -
  from assms(1) obtain x where x: "float_of lib (Change r) = Inr x"
    and rest: "asset_loop lib ua recs (Some (Coin r), signed ua x) = Inr (asset', amt')"
    by (auto simp: py_not_def signed_def Let_def split: sum.splits)
  from asset_loop_set [OF assms(2) rest] x show ?thesis
    by (simp add: float_of_eq_Inr)
qed

lemma asset_loop_head_numeric:
  "asset_loop lib ua (r # recs) (None, 0) = Inr res \<Longrightarrow> numeric lib r"
  by (auto simp: py_not_def Let_def float_of_eq_Inr split: sum.splits)

lemma buy_case_Inr:
  assumes "buy_case lib ts h e grp (ins, outs, intras) = Inr (ins', outs', intras')"
  shows "\<exists>fee_recs asset amt fee spent.
           fee_recs_of lib grp = Inr fee_recs \<and>
           asset_loop lib False (filter (\<lambda>r. Operation r = ''Transaction Buy'') grp) (None, 0) = Inr (asset, amt) \<and>
           fee_loop lib asset fee_recs 0 = Inr fee \<and>
           spend_loop lib (filter (\<lambda>r. Operation r = ''Transaction Spend'') grp) 0 = Inr spent \<and>
           ins' = ins @ [buy_in ts h e asset (amt - fee) fee spent] \<and> outs' = outs \<and> intras' = intras"
  using assms
  by (auto simp: buy_case_def bind_result_eq_Inr Let_def)

lemma sold_case_Inr:
  assumes "sold_case lib ts h e grp (ins, outs, intras) = Inr (ins', outs', intras')"
  shows "\<exists>fee_recs asset amt rev rev_asset fee.
           fee_recs_of lib grp = Inr fee_recs \<and>
           asset_loop lib True (filter (\<lambda>r. Operation r = ''Transaction Sold'') grp) (None, 0) = Inr (asset, amt) \<and>
           revenue_loop lib (filter (\<lambda>r. Operation r = ''Transaction Revenue'') grp) (0, ''USDT'') = Inr (rev, rev_asset) \<and>
           fee_loop lib (Some rev_asset) fee_recs 0 = Inr fee \<and>
           outs' = outs @ [sold_out ts h e asset amt (rev - fee) fee rev_asset] \<and> ins' = ins \<and> intras' = intras"
  using assms
  by (auto simp: sold_case_def bind_result_eq_Inr Let_def)

lemma filter_op_Nil: "op \<notin> Operation ` set grp \<Longrightarrow> filter (\<lambda>r. Operation r = op \<and> P r) grp = []"
  by (induction grp) auto

lemma filter_op_Nil': "op \<notin> Operation ` set grp \<Longrightarrow> filter (\<lambda>r. Operation r = op) grp = []"
  by (induction grp) auto

lemma convert_step:
  assumes "(if ''Binance Convert'' \<in> set (map Operation grp)
            then convert_loop lib ts h e (filter (\<lambda>rec. Operation rec = ''Binance Convert'') grp) ([], [], [])
            else Inr ([], [], [])) = Inr (ins, outs, intras)"
  shows "ins = convert_ins lib ts h e grp \<and> outs = convert_outs lib ts h e grp \<and> intras = [] \<and>
         list_all (numeric lib) (filter (\<lambda>r. Operation r = ''Binance Convert'') grp)"
proof (cases "''Binance Convert'' \<in> set (map Operation grp)")
  case True
  with assms have "convert_loop lib ts h e (filter (\<lambda>rec. Operation rec = ''Binance Convert'') grp) ([], [], []) = Inr (ins, outs, intras)"
    by simp
  from convert_loop_Inr [OF this] show ?thesis
    by (simp add: convert_ins_def convert_outs_def filter_filter conj_commute)
next
  case False
  with assms show ?thesis
    by (simp add: convert_ins_def convert_outs_def filter_op_Nil filter_op_Nil')
qed

lemma deposit_step:
  assumes "(if ''Deposit'' \<in> set (map Operation grp)
            then deposit_loop lib ts h e (filter (\<lambda>rec. Operation rec = ''Deposit'') grp) (ins, outs, intras)
            else Inr (ins, outs, intras)) = Inr (ins', outs', intras')"
  shows "ins' = ins \<and> outs' = outs \<and> intras' = intras @ deposit_intras lib ts h e grp \<and>
         list_all (numeric lib) (filter (\<lambda>r. Operation r = ''Deposit'') grp)"
proof (cases "''Deposit'' \<in> set (map Operation grp)")
  case True
  with assms have "deposit_loop lib ts h e (filter (\<lambda>rec. Operation rec = ''Deposit'') grp) (ins, outs, intras) = Inr (ins', outs', intras')"
    by simp
  from deposit_loop_Inr [OF this] show ?thesis
    by (simp add: deposit_intras_def filter_filter conj_commute)
next
  case False
  with assms show ?thesis
    by (simp add: deposit_intras_def filter_op_Nil filter_op_Nil')
qed

lemma withdraw_step:
  assumes "(if ''Withdraw'' \<in> set (map Operation grp)
            then withdraw_loop lib ts h e (filter (\<lambda>rec. Operation rec = ''Withdraw'') grp) (ins, outs, intras)
            else Inr (ins, outs, intras)) = Inr (ins', outs', intras')"
  shows "ins' = ins \<and> intras' = intras \<and> outs' = outs @ withdraw_outs lib ts h e grp \<and>
         list_all (numeric lib) (filter (\<lambda>r. Operation r = ''Withdraw'') grp)"
proof (cases "''Withdraw'' \<in> set (map Operation grp)")
  case True
  with assms have "withdraw_loop lib ts h e (filter (\<lambda>rec. Operation rec = ''Withdraw'') grp) (ins, outs, intras) = Inr (ins', outs', intras')"
    by simp
  from withdraw_loop_Inr [OF this] show ?thesis
    by (simp add: withdraw_outs_def)
next
  case False
  with assms show ?thesis
    by (simp add: withdraw_outs_def filter_op_Nil')
qed

text \<open>The shape of every result of the classifier.\<close>

lemma process_transaction_group_Inr:
  assumes "process_transaction_group lib grp h e = Inr (ins, outs, intras)"
  shows "\<exists>ts buy_ins sold_outs.
           grp \<noteq> [] \<and> py_isoformat lib (UTC_Time (hd grp)) = Some ts \<and>
           list_all (numeric lib) (filter (\<lambda>r. Operation r = ''Binance Convert'') grp) \<and>
           list_all (numeric lib) (filter (\<lambda>r. Operation r = ''Deposit'') grp) \<and>
           list_all (numeric lib) (filter (\<lambda>r. Operation r = ''Withdraw'') grp) \<and>
           ins = convert_ins lib ts h e grp @ buy_ins \<and>
           outs = convert_outs lib ts h e grp @ withdraw_outs lib ts h e grp @ sold_outs \<and>
           intras = deposit_intras lib ts h e grp \<and>
           (if ''Transaction Buy'' \<in> set (map Operation grp)
            then buy_case lib ts h e grp ([], [], []) = Inr (buy_ins, [], [])
            else buy_ins = []) \<and>
           (if ''Transaction Sold'' \<in> set (map Operation grp)
            then sold_case lib ts h e grp ([], [], []) = Inr ([], sold_outs, [])
            else sold_outs = [])"
proof -
  from assms have grp: "grp \<noteq> []"
    by (cases grp) (auto simp: process_transaction_group_def)
  let ?ops = "set (map Operation grp)"
  from assms grp obtain ts where ts: "py_isoformat lib (UTC_Time (hd grp)) = Some ts"
    by (auto simp: process_transaction_group_def iso_timestamp_of_def bind_result_eq_Inr list.case_eq_if
        split: option.splits)
  from assms grp ts obtain txs1 txs2 txs3 where
    s1: "(if ''Binance Convert'' \<in> ?ops
          then convert_loop lib ts h e (filter (\<lambda>rec. Operation rec = ''Binance Convert'') grp) ([], [], [])
          else Inr ([], [], [])) = Inr txs1" and
    s2: "(if ''Deposit'' \<in> ?ops
          then deposit_loop lib ts h e (filter (\<lambda>rec. Operation rec = ''Deposit'') grp) txs1
          else Inr txs1) = Inr txs2" and
    s3: "(if ''Withdraw'' \<in> ?ops
          then withdraw_loop lib ts h e (filter (\<lambda>rec. Operation rec = ''Withdraw'') grp) txs2
          else Inr txs2) = Inr txs3" and
    s4: "(if ''Transaction Buy'' \<in> ?ops \<or> ''Transaction Sold'' \<in> ?ops
          then bind_result
                 (if ''Transaction Buy'' \<in> ?ops then buy_case lib ts h e grp txs3 else Inr txs3)
                 (\<lambda>txs4. if ''Transaction Sold'' \<in> ?ops then sold_case lib ts h e grp txs4 else Inr txs4)
          else Inr txs3) = Inr (ins, outs, intras)"
    unfolding process_transaction_group_def iso_timestamp_of_def
    by (simp add: bind_result_eq_Inr Let_def list.case_eq_if del: set_map split_paired_Ex) blast
  obtain i1 o1 t1 where txs1: "txs1 = (i1, o1, t1)" by (cases txs1) auto
  obtain i2 o2 t2 where txs2: "txs2 = (i2, o2, t2)" by (cases txs2) auto
  obtain i3 o3 t3 where txs3: "txs3 = (i3, o3, t3)" by (cases txs3) auto
  note c1 = convert_step [OF s1 [unfolded txs1]]
  note c2 = deposit_step [OF s2 [unfolded txs1 txs2]]
  note c3 = withdraw_step [OF s3 [unfolded txs2 txs3]]
  from c1 c2 c3 have t3: "i3 = convert_ins lib ts h e grp"
    "o3 = convert_outs lib ts h e grp @ withdraw_outs lib ts h e grp"
    "t3 = deposit_intras lib ts h e grp"
    by simp_all
  obtain txs4 where
    b: "(if ''Transaction Buy'' \<in> ?ops then buy_case lib ts h e grp txs3 else Inr txs3) = Inr txs4" and
    s: "(if ''Transaction Sold'' \<in> ?ops then sold_case lib ts h e grp txs4 else Inr txs4) = Inr (ins, outs, intras)"
    using s4 by (cases "''Transaction Buy'' \<in> ?ops \<or> ''Transaction Sold'' \<in> ?ops")
      (auto simp: bind_result_eq_Inr simp del: set_map split: if_splits)
  obtain i4 o4 t4 where txs4: "txs4 = (i4, o4, t4)" by (cases txs4) auto
  have "\<exists>buy_ins. i4 = i3 @ buy_ins \<and> o4 = o3 \<and> t4 = t3 \<and>
          (if ''Transaction Buy'' \<in> ?ops
           then buy_case lib ts h e grp ([], [], []) = Inr (buy_ins, [], []) else buy_ins = [])"
  proof (cases "''Transaction Buy'' \<in> ?ops")
    case True
    with b have "buy_case lib ts h e grp (i3, o3, t3) = Inr (i4, o4, t4)"
      by (simp add: txs3 txs4 del: set_map)
    from buy_case_Inr [OF this] True show ?thesis
      by (auto simp: buy_case_def bind_result_eq_Inr Let_def simp del: set_map)
  next
    case False
    with b show ?thesis by (simp add: txs3 txs4 del: set_map)
  qed
  then obtain buy_ins where bi: "i4 = i3 @ buy_ins" "o4 = o3" "t4 = t3"
    "(if ''Transaction Buy'' \<in> ?ops
           then buy_case lib ts h e grp ([], [], []) = Inr (buy_ins, [], []) else buy_ins = [])"
    by blast
  have "\<exists>sold_outs. ins = i4 \<and> outs = o4 @ sold_outs \<and> intras = t4 \<and>
          (if ''Transaction Sold'' \<in> ?ops
           then sold_case lib ts h e grp ([], [], []) = Inr ([], sold_outs, []) else sold_outs = [])"
  proof (cases "''Transaction Sold'' \<in> ?ops")
    case True
    with s have "sold_case lib ts h e grp (i4, o4, t4) = Inr (ins, outs, intras)"
      by (simp add: txs4 del: set_map)
    from sold_case_Inr [OF this] True show ?thesis
      by (auto simp: sold_case_def bind_result_eq_Inr Let_def simp del: set_map)
  next
    case False
    with s show ?thesis by (simp add: txs4 del: set_map)
  qed
  then obtain sold_outs where so: "ins = i4" "outs = o4 @ sold_outs" "intras = t4"
    "(if ''Transaction Sold'' \<in> ?ops
           then sold_case lib ts h e grp ([], [], []) = Inr ([], sold_outs, []) else sold_outs = [])"
    by blast
  from grp ts c1 c2 c3 t3 bi so show ?thesis
    by (intro exI [of _ ts] exI [of _ buy_ins] exI [of _ sold_outs]) (simp del: set_map)
qed

lemma swap_loop_Inr:
  "swap_loop lib h e a b swaps acc = Inr acc' \<Longrightarrow>
   list_all (numeric lib) (filter (\<lambda>s. Coin s = a) swaps) \<and>
   acc' = acc @ map (\<lambda>s. rebranding_intra (iso_timestamp lib s) h e a b (abs (change_of lib s)))
                  (filter (\<lambda>s. Coin s = a) swaps)"
proof (induction swaps arbitrary: acc)
  case Nil
  then show ?case by simp
next
  case (Cons s swaps)
  show ?case
  proof (cases "Coin s = a")
    case True
    with Cons.prems obtain x t where x: "float_of lib (Change s) = Inr x"
      and t: "py_isoformat lib (UTC_Time s) = Some t"
      and rest: "swap_loop lib h e a b swaps (acc @ [rebranding_intra t h e a b (abs x)]) = Inr acc'"
      by (auto simp: iso_timestamp_of_def split: sum.splits option.splits)
    from Cons.IH [OF rest] x t True show ?thesis
      by (simp add: float_of_eq_Inr iso_timestamp_def)
  next
    case False
    with Cons.prems have "swap_loop lib h e a b swaps acc = Inr acc'" by simp
    from Cons.IH [OF this] False show ?thesis by simp
  qed
qed

lemma dist_loop_Inr:
  "dist_loop lib h e swaps dists acc = Inr acc' \<Longrightarrow>
   acc' = acc @ concat (map (rebranding_intras lib h e swaps)
                          (filter (\<lambda>d. py_in '' to '' (remark_get d [])) dists)) \<and>
   list_all (\<lambda>d. \<exists>a b. rename_of d = Some (a, b) \<and>
                list_all (numeric lib) (filter (\<lambda>s. Coin s = a) swaps))
     (filter (\<lambda>d. py_in '' to '' (remark_get d [])) dists)"
proof (induction dists arbitrary: acc)
  case Nil
  then show ?case by simp
next
  case (Cons d dists)
  show ?case
  proof (cases "py_in '' to '' (remark_get d [])")
    case True
    with Cons.prems obtain a b mid where
      sp: "py_split '' to '' (remark_get d []) = Inr [a, b]" and
      sw: "swap_loop lib h e a b swaps acc = Inr mid" and
      rest: "dist_loop lib h e swaps dists mid = Inr acc'"
      by (auto simp: Let_def split: sum.splits list.splits)
    from sp have rn: "rename_of d = Some (a, b)" by (simp add: rename_of_def)
    from Cons.IH [OF rest] swap_loop_Inr [OF sw] rn True show ?thesis
      by (simp add: rebranding_intras_def)
  next
    case False
    with Cons.prems have "dist_loop lib h e swaps dists acc = Inr acc'" by (simp add: Let_def)
    from Cons.IH [OF this] False show ?thesis by simp
  qed
qed

lemma process_groups_Inr:
  "process_groups lib h e groups (a, b, c) = Inr (a', b', c') \<Longrightarrow>
   list_all (\<lambda>tg. group_ok lib h e (snd tg)) groups \<and>
   a' = a @ concat (map (\<lambda>tg. group_ins lib h e (snd tg)) groups) \<and>
   b' = b @ concat (map (\<lambda>tg. group_outs lib h e (snd tg)) groups) \<and>
   c' = c @ concat (map (\<lambda>tg. group_intras lib h e (snd tg)) groups)"
proof (induction groups arbitrary: a b c)
  case Nil
  then show ?case by simp
next
  case (Cons tg groups)
  obtain t g where tg: "tg = (t, g)" by (cases tg) auto
  from Cons.prems tg obtain i o' x where
    run: "process_transaction_group lib g h e = Inr (i, o', x)" and
    rest: "process_groups lib h e groups (a @ i, b @ o', c @ x) = Inr (a', b', c')"
    by (auto split: sum.splits)
  from Cons.IH [OF rest] run tg show ?case
    by (simp add: group_ok_def group_ins_def group_outs_def group_intras_def)
qed

lemma classify_records_Inr:
  assumes "classify_records lib records h e = Inr (ins, outs, intras)"
  shows "\<exists>reb. process_rebranding_pairs lib (filter is_swap records)
                 (filter is_rebranding_distribution records) h e = Inr reb \<and>
               process_groups lib h e (group_transactions_by_time (filter_records records))
                 ([], [], reb) = Inr (ins, outs, intras)"
  using assms by (simp add: classify_records_def Let_def bind_result_eq_Inr)

lemma group_intras_balanced:
  "t \<in> set (group_intras lib h e grp) \<Longrightarrow> crypto_sent t = crypto_received t"
proof (cases "process_transaction_group lib grp h e")
  case (Inl a)
  assume "t \<in> set (group_intras lib h e grp)"
  with Inl show ?thesis by (simp add: group_intras_def)
next
  case (Inr res)
  assume t: "t \<in> set (group_intras lib h e grp)"
  obtain i o' x where res: "res = (i, o', x)" by (cases res) auto
  from process_transaction_group_Inr [OF Inr [unfolded res]] obtain ts where
    "x = deposit_intras lib ts h e grp" by blast
  with t Inr res show ?thesis
    by (auto simp: group_intras_def deposit_intras_def deposit_intra_def)
qed

lemma rebranding_intras_balanced:
  "t \<in> set (rebranding_intras lib h e swaps d) \<Longrightarrow> crypto_sent t = crypto_received t"
  by (auto simp: rebranding_intras_def rebranding_intra_def split: option.splits)

subsection \<open>The record of the Buy rows and the record of the Sold rows\<close>

lemma convert_ins_no_fiat [simp]:
  "filter (\<lambda>i. in_fiat_ticker i \<noteq> None) (convert_ins lib ts h e grp) = []"
  by (induction grp) (auto simp: convert_ins_def convert_in_def simp del: not_None_eq)

lemma convert_outs_no_fiat [simp]:
  "filter (\<lambda>x. out_fiat_fee x \<noteq> None) (convert_outs lib ts h e grp) = []"
  by (induction grp) (auto simp: convert_outs_def convert_out_def simp del: not_None_eq)

lemma withdraw_outs_no_fiat [simp]:
  "filter (\<lambda>x. out_fiat_fee x \<noteq> None) (withdraw_outs lib ts h e grp) = []"
  by (induction grp) (auto simp: withdraw_outs_def withdraw_out_def simp del: not_None_eq)

lemma filter_Cons_mem: "filter P xs = y # ys \<Longrightarrow> y \<in> set xs \<and> P y"
  by (induction xs) (auto split: if_splits)

lemma buy_acquisition:
  assumes run: "process_transaction_group lib grp h e = Inr (ins, outs, intras)"
    and buys: "filter (\<lambda>r. Operation r = ''Transaction Buy'') grp = b # bs"
    and ne: "Coin b \<noteq> []"
  shows "\<exists>ts. py_isoformat lib (UTC_Time (hd grp)) = Some ts \<and>
           filter (\<lambda>i. in_fiat_ticker i \<noteq> None) ins =
             [buy_in ts h e (Some (Coin b))
                (bought_amount_of lib (Coin b) grp - fee_amount_of lib (Coin b) grp)
                (fee_amount_of lib (Coin b) grp) (spent_amount_of lib grp)]"
proof -
  from filter_Cons_mem [OF buys] have mem: "''Transaction Buy'' \<in> set (map Operation grp)"
    by force
  from process_transaction_group_Inr [OF run] mem obtain ts buy_ins where
    ts: "py_isoformat lib (UTC_Time (hd grp)) = Some ts" and
    ins: "ins = convert_ins lib ts h e grp @ buy_ins" and
    buy: "buy_case lib ts h e grp ([], [], []) = Inr (buy_ins, [], [])"
    by (auto simp del: set_map)
  from buy_case_Inr [OF buy] buys obtain fee_recs asset amt fee spent where
    fr: "fee_recs_of lib grp = Inr fee_recs" and
    al: "asset_loop lib False (b # bs) (None, 0) = Inr (asset, amt)" and
    fl: "fee_loop lib asset fee_recs 0 = Inr fee" and
    sl: "spend_loop lib (filter (\<lambda>r. Operation r = ''Transaction Spend'') grp) 0 = Inr spent" and
    bi: "buy_ins = [buy_in ts h e asset (amt - fee) fee spent]"
    by auto
  from asset_loop_first [OF al ne] have asset: "asset = Some (Coin b)" and
    amt: "amt = sum_list (map (change_of lib) (filter (\<lambda>x. Coin x = Coin b) (b # bs)))"
    by (simp_all add: signed_def)
  from amt have amt': "amt = bought_amount_of lib (Coin b) grp"
    unfolding buys [symmetric] by (simp add: bought_amount_of_def)
  from fee_recs_of_Inr [OF fr] fee_loop_Inr [OF fl] asset
  have fee: "fee = fee_amount_of lib (Coin b) grp"
    by (simp add: fee_amount_of_def conj_assoc eq_commute [of "Coin b"])
  from spend_loop_Inr [OF sl] have spent: "spent = spent_amount_of lib grp"
    by (simp add: spent_amount_of_def)
  from ts ins bi asset amt' fee spent show ?thesis
    by (simp add: buy_in_def del: not_None_eq)
qed

lemma sold_disposal:
  assumes run: "process_transaction_group lib grp h e = Inr (ins, outs, intras)"
    and solds: "filter (\<lambda>r. Operation r = ''Transaction Sold'') grp = b # bs"
    and ne: "Coin b \<noteq> []"
  shows "\<exists>ts. py_isoformat lib (UTC_Time (hd grp)) = Some ts \<and>
           filter (\<lambda>x. out_fiat_fee x \<noteq> None) outs =
             [sold_out ts h e (Some (Coin b)) (sold_amount_of lib (Coin b) grp)
                (revenue_amount_of lib grp - fee_amount_of lib (revenue_asset_of grp) grp)
                (fee_amount_of lib (revenue_asset_of grp) grp) (revenue_asset_of grp)]"
proof -
  from filter_Cons_mem [OF solds] have mem: "''Transaction Sold'' \<in> set (map Operation grp)"
    by force
  from process_transaction_group_Inr [OF run] mem obtain ts sold_outs where
    ts: "py_isoformat lib (UTC_Time (hd grp)) = Some ts" and
    outs: "outs = convert_outs lib ts h e grp @ withdraw_outs lib ts h e grp @ sold_outs" and
    sold: "sold_case lib ts h e grp ([], [], []) = Inr ([], sold_outs, [])"
    by (auto simp del: set_map)
  from sold_case_Inr [OF sold] solds obtain fee_recs asset amt rv rv_asset fee where
    fr: "fee_recs_of lib grp = Inr fee_recs" and
    al: "asset_loop lib True (b # bs) (None, 0) = Inr (asset, amt)" and
    rl: "revenue_loop lib (filter (\<lambda>r. Operation r = ''Transaction Revenue'') grp) (0, ''USDT'') = Inr (rv, rv_asset)" and
    fl: "fee_loop lib (Some rv_asset) fee_recs 0 = Inr fee" and
    so: "sold_outs = [sold_out ts h e asset amt (rv - fee) fee rv_asset]"
    by auto
  from asset_loop_first [OF al ne] have asset: "asset = Some (Coin b)" and
    amt: "amt = sum_list (map (\<lambda>x. abs (change_of lib x)) (filter (\<lambda>x. Coin x = Coin b) (b # bs)))"
    by (simp_all add: signed_def)
  from amt have amt': "amt = sold_amount_of lib (Coin b) grp"
    unfolding solds [symmetric] by (simp add: sold_amount_of_def)
  from revenue_loop_Inr [OF rl] have rv: "rv = revenue_amount_of lib grp"
    and rva: "rv_asset = revenue_asset_of grp"
    by (auto simp: revenue_amount_of_def revenue_asset_of_def last_rev [symmetric]
        simp del: last_rev split: list.splits)
  from fee_recs_of_Inr [OF fr] fee_loop_Inr [OF fl] rva
  have fee: "fee = fee_amount_of lib (revenue_asset_of grp) grp"
    by (simp add: fee_amount_of_def conj_assoc)
  from ts outs so asset amt' fee rv rva show ?thesis
    by (simp add: sold_out_def del: not_None_eq)
qed

subsection \<open>The groups of a record list\<close>

lemma filter_records_eq:
  "filter_records records =
     filter (\<lambda>rec. \<not> is_swap rec \<and> \<not> is_rebranding_distribution rec) records"
proof (cases "filter is_swap records \<noteq> [] \<or> filter is_rebranding_distribution records \<noteq> []")
  case True
  then show ?thesis by (simp add: filter_records_def del: filter_empty_conv split del: if_split)
next
  case False
  then have "\<forall>x\<in>set records. \<not> is_swap x \<and> \<not> is_rebranding_distribution x"
    by (auto simp: filter_empty_conv)
  then have "filter (\<lambda>rec. \<not> is_swap rec \<and> \<not> is_rebranding_distribution rec) records = records"
    by (simp add: filter_id_conv)
  with False show ?thesis by (simp add: filter_records_def)
qed

lemma group_append_map_of:
  "distinct (map fst gs) \<Longrightarrow>
   distinct (map fst (group_append r gs)) \<and>
   map_of (group_append r gs) =
     (map_of gs)(UTC_Time r \<mapsto> (case map_of gs (UTC_Time r) of None \<Rightarrow> [r] | Some g \<Rightarrow> g @ [r])) \<and>
   fst ` set (group_append r gs) = insert (UTC_Time r) (fst ` set gs)"
proof (induction gs)
  case Nil
  then show ?case by simp
next
  case (Cons tg gs)
  obtain t g where tg: "tg = (t, g)" by (cases tg) auto
  from Cons.prems tg have d: "distinct (map fst gs)" and nt: "t \<notin> fst ` set gs" by auto
  note ih = Cons.IH [OF d]
  show ?case
  proof (cases "t = UTC_Time r")
    case True
    with tg Cons.prems show ?thesis by (auto simp: fun_eq_iff)
  next
    case False
    with tg ih nt show ?thesis by (auto simp: fun_eq_iff)
  qed
qed

lemma group_transactions_by_time_snoc:
  "group_transactions_by_time (recs @ [r]) = group_append r (group_transactions_by_time recs)"
  by (simp add: group_transactions_by_time_def)

lemma group_transactions_by_time_map_of:
  "distinct (map fst (group_transactions_by_time recs)) \<and>
   map_of (group_transactions_by_time recs) =
     (\<lambda>t. if filter (\<lambda>r. UTC_Time r = t) recs = [] then None
          else Some (filter (\<lambda>r. UTC_Time r = t) recs))"
proof (induction recs rule: rev_induct)
  case Nil
  then show ?case by (simp add: group_transactions_by_time_def)
next
  case (snoc r recs)
  from snoc have d: "distinct (map fst (group_transactions_by_time recs))" by simp
  from group_append_map_of [OF d, of r] snoc show ?case
    by (auto simp: group_transactions_by_time_snoc fun_eq_iff)
qed

lemma group_of_row:
  assumes "r \<in> set recs"
  shows "(UTC_Time r, filter (\<lambda>x. UTC_Time x = UTC_Time r) recs) \<in> set (group_transactions_by_time recs)"
proof -
  from assms have "filter (\<lambda>x. UTC_Time x = UTC_Time r) recs \<noteq> []"
    by (auto simp: filter_empty_conv)
  with group_transactions_by_time_map_of [of recs]
  have "map_of (group_transactions_by_time recs) (UTC_Time r) =
          Some (filter (\<lambda>x. UTC_Time x = UTC_Time r) recs)"
    by simp
  then show ?thesis by (rule map_of_SomeD)
qed

lemma group_rows:
  assumes "(t, g) \<in> set (group_transactions_by_time recs)"
  shows "g = filter (\<lambda>x. UTC_Time x = t) recs \<and> g \<noteq> []"
proof -
  from group_transactions_by_time_map_of [of recs]
  have d: "distinct (map fst (group_transactions_by_time recs))" and
    m: "map_of (group_transactions_by_time recs) t =
          (if filter (\<lambda>r. UTC_Time r = t) recs = [] then None
           else Some (filter (\<lambda>r. UTC_Time r = t) recs))"
    by simp_all
  from map_of_is_SomeI [OF d assms]
  have "map_of (group_transactions_by_time recs) t = Some g" .
  with m show ?thesis
    by (auto split: if_splits)
qed

lemma selected_by_first_numeric:
  assumes loop: "asset_loop lib ua (filter (\<lambda>x. Operation x = op) grp) (None, 0) = Inr res"
    and r: "r \<in> set grp" and sel: "selected_by_first op grp r"
  shows "numeric lib r"
proof -
  from sel obtain b bs where f: "filter (\<lambda>x. Operation x = op) grp = b # bs"
    and op: "Operation r = op" and c: "Coin r = Coin b" and alt: "Coin b \<noteq> [] \<or> r = b"
    by (auto simp: selected_by_first_def split: list.splits)
  obtain a m where res: "res = (a, m)" by (cases res) auto
  from loop f res have l: "asset_loop lib ua (b # bs) (None, 0) = Inr (a, m)" by simp
  show ?thesis
  proof (cases "Coin b = []")
    case True
    with alt have "r = b" by simp
    with asset_loop_head_numeric [OF l] show ?thesis by simp
  next
    case False
    from asset_loop_first [OF l False]
    have all: "list_all (numeric lib) (filter (\<lambda>x. Coin x = Coin b) (b # bs))" by simp
    from r op have "r \<in> set (filter (\<lambda>x. Operation x = op) grp)" by simp
    with f c have "r \<in> set (filter (\<lambda>x. Coin x = Coin b) (b # bs))" by simp
    with all show ?thesis unfolding list_all_iff by blast
  qed
qed

lemma parsed_in_group_numeric:
  assumes run: "process_transaction_group lib grp h e = Inr res"
    and r: "r \<in> set grp" and p: "parsed_in_group grp r"
  shows "numeric lib r"
proof -
  obtain ins outs intras where res: "res = (ins, outs, intras)" by (cases res) auto
  let ?ops = "set (map Operation grp)"
  from process_transaction_group_Inr [OF run [unfolded res]] obtain ts buy_ins sold_outs where
    conv: "list_all (numeric lib) (filter (\<lambda>r. Operation r = ''Binance Convert'') grp)" and
    dep: "list_all (numeric lib) (filter (\<lambda>r. Operation r = ''Deposit'') grp)" and
    wd: "list_all (numeric lib) (filter (\<lambda>r. Operation r = ''Withdraw'') grp)" and
    buy: "(if ''Transaction Buy'' \<in> ?ops
            then buy_case lib ts h e grp ([], [], []) = Inr (buy_ins, [], [])
            else buy_ins = [])" and
    sold: "(if ''Transaction Sold'' \<in> ?ops
            then sold_case lib ts h e grp ([], [], []) = Inr ([], sold_outs, [])
            else sold_outs = [])"
    by blast
  have buy_rows: "numeric lib r"
    if "''Transaction Buy'' \<in> ?ops"
      and "Operation r = ''Transaction Fee'' \<or> Operation r = ''Transaction Spend'' \<or>
           selected_by_first ''Transaction Buy'' grp r"
  proof -
    from buy that(1) have "buy_case lib ts h e grp ([], [], []) = Inr (buy_ins, [], [])"
      by (simp del: set_map)
    from buy_case_Inr [OF this] obtain fee_recs asset amt fee spent where
      fr: "fee_recs_of lib grp = Inr fee_recs" and
      al: "asset_loop lib False (filter (\<lambda>r. Operation r = ''Transaction Buy'') grp) (None, 0) = Inr (asset, amt)" and
      sl: "spend_loop lib (filter (\<lambda>r. Operation r = ''Transaction Spend'') grp) 0 = Inr spent"
      by auto
    from fee_recs_of_Inr [OF fr] spend_loop_Inr [OF sl] selected_by_first_numeric [OF al r] that(2) r
    show ?thesis by (auto simp: list_all_iff)
  qed
  have sold_rows: "numeric lib r"
    if "''Transaction Sold'' \<in> ?ops"
      and "Operation r = ''Transaction Fee'' \<or> Operation r = ''Transaction Revenue'' \<or>
           selected_by_first ''Transaction Sold'' grp r"
  proof -
    from sold that(1) have "sold_case lib ts h e grp ([], [], []) = Inr ([], sold_outs, [])"
      by (simp del: set_map)
    from sold_case_Inr [OF this] obtain fee_recs asset amt rv rv_asset where
      fr: "fee_recs_of lib grp = Inr fee_recs" and
      al: "asset_loop lib True (filter (\<lambda>r. Operation r = ''Transaction Sold'') grp) (None, 0) = Inr (asset, amt)" and
      rl: "revenue_loop lib (filter (\<lambda>r. Operation r = ''Transaction Revenue'') grp) (0, ''USDT'') = Inr (rv, rv_asset)"
      by auto
    from fee_recs_of_Inr [OF fr] revenue_loop_Inr [OF rl] selected_by_first_numeric [OF al r] that(2) r
    show ?thesis by (auto simp: list_all_iff)
  qed
  have first_mem: "op \<in> ?ops" if "selected_by_first op grp r" for op
    using that r by (auto simp: selected_by_first_def split: list.splits)
  from p consider
      "Operation r = ''Binance Convert''" | "Operation r = ''Deposit''" | "Operation r = ''Withdraw''"
    | "''Transaction Buy'' \<in> ?ops" "Operation r = ''Transaction Fee'' \<or> Operation r = ''Transaction Spend'' \<or>
           selected_by_first ''Transaction Buy'' grp r"
    | "''Transaction Sold'' \<in> ?ops" "Operation r = ''Transaction Fee'' \<or> Operation r = ''Transaction Revenue'' \<or>
           selected_by_first ''Transaction Sold'' grp r"
    using first_mem unfolding parsed_in_group_def Let_def by blast
  then show ?thesis
  proof cases
    case 1
    with conv r show ?thesis by (auto simp: list_all_iff)
  next
    case 2
    with dep r show ?thesis by (auto simp: list_all_iff)
  next
    case 3
    with wd r show ?thesis by (auto simp: list_all_iff)
  next
    case 4
    then show ?thesis by (rule buy_rows)
  next
    case 5
    then show ?thesis by (rule sold_rows)
  qed
qed

lemma classify_records_numeric:
  assumes run: "classify_records lib records h e = Inr res"
    and r: "r \<in> set records" and p: "change_is_parsed records r"
  shows "numeric lib r"
proof -
  obtain ins outs intras where res: "res = (ins, outs, intras)" by (cases res) auto
  from classify_records_Inr [OF run [unfolded res]] obtain reb where
    reb: "process_rebranding_pairs lib (filter is_swap records)
            (filter is_rebranding_distribution records) h e = Inr reb" and
    grp: "process_groups lib h e (group_transactions_by_time (filter_records records))
            ([], [], reb) = Inr (ins, outs, intras)"
    by blast
  show ?thesis
  proof (cases "is_swap r")
    case True
    with p obtain d where d: "d \<in> set (filter is_rebranding_distribution records)"
      and old: "old_asset_of d = Some (Coin r)"
      by (auto simp: change_is_parsed_def list_ex_iff)
    from d have sep: "py_in '' to '' (remark_get d [])"
      by (simp add: is_rebranding_distribution_def)
    from dist_loop_Inr [OF reb [unfolded process_rebranding_pairs_def]] d sep
    obtain a b where rn: "rename_of d = Some (a, b)"
      and all: "list_all (numeric lib) (filter (\<lambda>s. Coin s = a) (filter is_swap records))"
      by (auto simp: list_all_iff)
    from rn old have "a = Coin r" by (simp add: old_asset_of_def)
    with all r True show ?thesis by (auto simp: list_all_iff)
  next
    case False
    let ?g = "filter (\<lambda>x. UTC_Time x = UTC_Time r) (filter_records records)"
    from False p have nd: "\<not> is_rebranding_distribution r" and pg: "parsed_in_group ?g r"
      by (simp_all add: change_is_parsed_def)
    from False nd r have fr: "r \<in> set (filter_records records)"
      by (simp add: filter_records_eq)
    from group_of_row [OF fr] process_groups_Inr [OF grp]
    have "group_ok lib h e ?g" by (force simp: list_all_iff)
    then obtain res' where run': "process_transaction_group lib ?g h e = Inr res'"
      by (auto simp: group_ok_def split: sum.splits)
    from fr have "r \<in> set ?g" by simp
    from parsed_in_group_numeric [OF run' this pg] show ?thesis .
  qed
qed

subsection \<open>Rows of the rebranding pattern without a partner\<close>

lemma swap_not_distribution: "is_swap r \<Longrightarrow> \<not> is_rebranding_distribution r"
  by (simp add: is_swap_def is_rebranding_distribution_def)

lemma swap_loop_skip:
  "Coin r \<noteq> a \<Longrightarrow>
   swap_loop lib h e a b (sx @ r # sy) acc = swap_loop lib h e a b (sx @ sy) acc"
  by (induction sx arbitrary: acc) (auto split: sum.splits)

lemma swap_loop_none:
  "list_all (\<lambda>s. Coin s \<noteq> a) swaps \<Longrightarrow> swap_loop lib h e a b swaps acc = Inr acc"
  by (induction swaps arbitrary: acc) auto

lemma dist_loop_skip_swap:
  assumes "list_all (\<lambda>d. old_asset_of d \<noteq> Some (Coin r)) (filter is_rebranding_distribution dists)"
    and "list_all (\<lambda>d. Operation d = ''Distribution'') dists"
  shows "dist_loop lib h e (sx @ r # sy) dists acc = dist_loop lib h e (sx @ sy) dists acc"
  using assms
proof (induction dists arbitrary: acc)
  case Nil
  then show ?case by simp
next
  case (Cons d dists)
  from Cons.prems have ih: "\<And>acc. dist_loop lib h e (sx @ r # sy) dists acc = dist_loop lib h e (sx @ sy) dists acc"
    by (intro Cons.IH) (auto split: if_splits)
  show ?case
  proof (cases "py_in '' to '' (remark_get d [])")
    case False
    with ih show ?thesis by (simp add: Let_def)
  next
    case True
    with Cons.prems have el: "is_rebranding_distribution d"
      by (simp add: is_rebranding_distribution_def)
    with Cons.prems have ne: "old_asset_of d \<noteq> Some (Coin r)" by simp
    show ?thesis
    proof (cases "rename_of d")
      case None
      with True show ?thesis
        by (auto simp: Let_def rename_of_def split: sum.splits list.splits)
    next
      case (Some ab)
      obtain a b where ab: "ab = (a, b)" by (cases ab) auto
      from Some ab have sp: "py_split '' to '' (remark_get d []) = Inr [a, b]"
        by (auto simp: rename_of_def split: sum.splits list.splits)
      from Some ab ne have "Coin r \<noteq> a" by (auto simp: old_asset_of_def)
      from swap_loop_skip [OF this] True sp ih show ?thesis
        by (simp add: Let_def split: sum.splits)
    qed
  qed
qed

lemma dist_loop_skip_dist:
  assumes sep: "py_in '' to '' (remark_get r [])"
    and rn: "rename_of r = Some (a, b)"
    and none: "list_all (\<lambda>s. Coin s \<noteq> a) swaps"
  shows "dist_loop lib h e swaps (dx @ r # dy) acc = dist_loop lib h e swaps (dx @ dy) acc"
proof (induction dx arbitrary: acc)
  case Nil
  from rn have sp: "py_split '' to '' (remark_get r []) = Inr [a, b]"
    by (auto simp: rename_of_def split: sum.splits list.splits)
  from sep sp swap_loop_none [OF none] show ?case
    by (simp add: Let_def)
next
  case (Cons d dx)
  then show ?case
    by (auto simp: Let_def split: sum.splits list.splits)
qed

lemma rebranding_skip:
  assumes el: "is_swap r \<or> is_rebranding_distribution r"
    and un: "unmatched r (xs @ ys)"
  shows "process_rebranding_pairs lib (filter is_swap (xs @ r # ys))
           (filter is_rebranding_distribution (xs @ r # ys)) h e =
         process_rebranding_pairs lib (filter is_swap (xs @ ys))
           (filter is_rebranding_distribution (xs @ ys)) h e"
proof (cases "is_swap r")
  case True
  with un have all: "list_all (\<lambda>d. old_asset_of d \<noteq> Some (Coin r))
      (filter is_rebranding_distribution (filter is_rebranding_distribution (xs @ ys)))"
    by (simp add: unmatched_def)
  have ops: "list_all (\<lambda>d. Operation d = ''Distribution'') (filter is_rebranding_distribution (xs @ ys))"
    by (auto simp: list_all_iff is_rebranding_distribution_def)
  from dist_loop_skip_swap [OF all ops, of lib h e "filter is_swap xs" "filter is_swap ys" "[]"]
    True swap_not_distribution [OF True]
  show ?thesis by (simp add: process_rebranding_pairs_def)
next
  case False
  with el have d: "is_rebranding_distribution r" by simp
  from False un obtain a where old: "old_asset_of r = Some a"
    and none: "list_all (\<lambda>s. Coin s \<noteq> a) (filter is_swap (xs @ ys))"
    by (auto simp: unmatched_def split: option.splits)
  from old obtain b where rn: "rename_of r = Some (a, b)"
    by (auto simp: old_asset_of_def)
  from d have sep: "py_in '' to '' (remark_get r [])"
    by (simp add: is_rebranding_distribution_def)
  from dist_loop_skip_dist [OF sep rn none, of lib h e "filter is_rebranding_distribution xs"
      "filter is_rebranding_distribution ys" "[]"] False d
  show ?thesis by (simp add: process_rebranding_pairs_def)
qed

subsection \<open>Signs of the reported quantities\<close>

lemma change_of_not_NaN:
  "py_float lib (Change r) \<noteq> Some NaN \<Longrightarrow> change_of lib r \<noteq> NaN"
  by (auto simp: change_of_def zero_pyfloat_def split: option.splits)

lemma asset_loop_abs_nonneg:
  "asset_loop lib True recs (a, amt) = Inr (a', amt') \<Longrightarrow> 0 \<le> amt \<Longrightarrow>
   \<forall>r\<in>set recs. change_of lib r \<noteq> NaN \<Longrightarrow> 0 \<le> amt'"
proof (induction recs arbitrary: a amt)
  case Nil
  then show ?case by simp
next
  case (Cons r recs)
  let ?a = "if py_not a then Some (Coin r) else a"
  from Cons.prems(3) have rest_ok: "\<forall>x\<in>set recs. change_of lib x \<noteq> NaN" by simp
  show ?case
  proof (cases "Some (Coin r) = ?a")
    case True
    with Cons.prems(1) obtain x where x: "float_of lib (Change r) = Inr x" and
      rest: "asset_loop lib True recs (?a, amt + abs x) = Inr (a', amt')"
      by (auto simp: Let_def split: sum.splits)
    from x have "change_of lib r = x" by (simp add: float_of_eq_Inr)
    with Cons.prems(3) have "x \<noteq> NaN" by auto
    from add_nonneg_pyfloat [OF Cons.prems(2) abs_nonneg_pyfloat [OF this]]
    have "0 \<le> amt + abs x" .
    from Cons.IH [OF rest this rest_ok] show ?thesis .
  next
    case False
    with Cons.prems(1) have "asset_loop lib True recs (?a, amt) = Inr (a', amt')"
      by (auto simp: Let_def)
    from Cons.IH [OF this Cons.prems(2) rest_ok] show ?thesis .
  qed
qed

lemma sum_list_abs_nonneg:
  "\<forall>r\<in>set rs. f r \<noteq> NaN \<Longrightarrow> 0 \<le> sum_list (map (\<lambda>r. abs (f r :: pyfloat)) rs)"
  by (induction rs) (auto intro: add_nonneg_pyfloat abs_nonneg_pyfloat)

lemma group_outs_nonneg:
  assumes "x \<in> set (group_outs lib h e grp)"
    and finite: "\<forall>r\<in>set grp. change_of lib r \<noteq> NaN"
  shows "0 \<le> crypto_out_no_fee x \<and> 0 \<le> out_crypto_fee x \<and> 0 \<le> crypto_out_with_fee x"
proof (cases "process_transaction_group lib grp h e")
  case (Inl a)
  with assms show ?thesis by (simp add: group_outs_def)
next
  case (Inr res)
  obtain i o' t where res: "res = (i, o', t)" by (cases res) auto
  from process_transaction_group_Inr [OF Inr [unfolded res]] obtain ts sold_outs where
    outs: "o' = convert_outs lib ts h e grp @ withdraw_outs lib ts h e grp @ sold_outs" and
    sold: "(if ''Transaction Sold'' \<in> set (map Operation grp)
            then sold_case lib ts h e grp ([], [], []) = Inr ([], sold_outs, [])
            else sold_outs = [])"
    by blast
  have "\<forall>y\<in>set sold_outs. 0 \<le> crypto_out_no_fee y \<and> 0 \<le> out_crypto_fee y \<and> 0 \<le> crypto_out_with_fee y"
  proof (cases "''Transaction Sold'' \<in> set (map Operation grp)")
    case True
    with sold have "sold_case lib ts h e grp ([], [], []) = Inr ([], sold_outs, [])"
      by (simp del: set_map)
    from sold_case_Inr [OF this] obtain asset amt rv rv_asset fee where
      loop: "asset_loop lib True (filter (\<lambda>r. Operation r = ''Transaction Sold'') grp) (None, 0) = Inr (asset, amt)" and
      so: "sold_outs = [sold_out ts h e asset amt (rv - fee) fee rv_asset]"
      by auto
    from finite have "\<forall>r\<in>set (filter (\<lambda>r. Operation r = ''Transaction Sold'') grp). change_of lib r \<noteq> NaN"
      by simp
    from asset_loop_abs_nonneg [OF loop _ this] so show ?thesis
      by (simp add: sold_out_def)
  next
    case False
    with sold show ?thesis by (simp del: set_map)
  qed
  moreover have "\<forall>y\<in>set (convert_outs lib ts h e grp). 0 \<le> crypto_out_no_fee y \<and> 0 \<le> out_crypto_fee y \<and> 0 \<le> crypto_out_with_fee y"
    using finite by (auto simp: convert_outs_def convert_out_def intro: abs_nonneg_pyfloat)
  moreover have "\<forall>y\<in>set (withdraw_outs lib ts h e grp). 0 \<le> crypto_out_no_fee y \<and> 0 \<le> out_crypto_fee y \<and> 0 \<le> crypto_out_with_fee y"
    using finite by (auto simp: withdraw_outs_def withdraw_out_def intro: abs_nonneg_pyfloat)
  ultimately show ?thesis
    using assms(1) Inr res outs by (auto simp: group_outs_def)
qed

lemma group_ins_signs:
  assumes "x \<in> set (group_ins lib h e grp)"
    and finite: "\<forall>r\<in>set grp. change_of lib r \<noteq> NaN"
  shows "0 \<le> in_crypto_fee x \<and> (in_fiat_ticker x = None \<longrightarrow> 0 < crypto_in x) \<and>
         (in_fiat_ticker x \<noteq> None \<longrightarrow>
            (\<exists>asset amt.
               asset_loop lib False (filter (\<lambda>r. Operation r = ''Transaction Buy'') grp) (None, 0)
                 = Inr (asset, amt) \<and>
               crypto_in x = amt - in_crypto_fee x))"
proof (cases "process_transaction_group lib grp h e")
  case (Inl a)
  with assms show ?thesis by (simp add: group_ins_def)
next
  case (Inr res)
  obtain i o' t where res: "res = (i, o', t)" by (cases res) auto
  from process_transaction_group_Inr [OF Inr [unfolded res]] obtain ts buy_ins where
    ins: "i = convert_ins lib ts h e grp @ buy_ins" and
    buy: "(if ''Transaction Buy'' \<in> set (map Operation grp)
            then buy_case lib ts h e grp ([], [], []) = Inr (buy_ins, [], [])
            else buy_ins = [])"
    by blast
  have b: "\<forall>y\<in>set buy_ins. 0 \<le> in_crypto_fee y \<and> in_fiat_ticker y \<noteq> None \<and>
            (\<exists>asset amt.
               asset_loop lib False (filter (\<lambda>r. Operation r = ''Transaction Buy'') grp) (None, 0)
                 = Inr (asset, amt) \<and>
               crypto_in y = amt - in_crypto_fee y)"
  proof (cases "''Transaction Buy'' \<in> set (map Operation grp)")
    case True
    with buy have "buy_case lib ts h e grp ([], [], []) = Inr (buy_ins, [], [])"
      by (simp del: set_map)
    from buy_case_Inr [OF this] obtain fee_recs asset amt fee spent where
      fr: "fee_recs_of lib grp = Inr fee_recs" and
      al: "asset_loop lib False (filter (\<lambda>r. Operation r = ''Transaction Buy'') grp) (None, 0) = Inr (asset, amt)" and
      loop: "fee_loop lib asset fee_recs 0 = Inr fee" and
      bi: "buy_ins = [buy_in ts h e asset (amt - fee) fee spent]"
      by auto
    from fee_recs_of_Inr [OF fr] finite
    have "\<forall>r\<in>set (filter (\<lambda>r. Some (Coin r) = asset) fee_recs). change_of lib r \<noteq> NaN"
      by simp
    from sum_list_abs_nonneg [OF this] fee_loop_Inr [OF loop] have "0 \<le> fee"
      by simp
    with al bi show ?thesis
      by (simp add: buy_in_def)
  next
    case False
    with buy show ?thesis by (simp del: set_map)
  qed
  have c: "\<forall>y\<in>set (convert_ins lib ts h e grp). 0 \<le> in_crypto_fee y \<and>
             in_fiat_ticker y = None \<and> 0 < crypto_in y"
    by (auto simp: convert_ins_def convert_in_def)
  from assms(1) Inr res ins have "x \<in> set (convert_ins lib ts h e grp) \<or> x \<in> set buy_ins"
    by (auto simp: group_ins_def)
  with b c show ?thesis by auto
qed

lemma group_rows_in_records:
  assumes "tg \<in> set (group_transactions_by_time (filter_records records))"
  shows "set (snd tg) \<subseteq> set records"
proof -
  obtain t g where tg: "tg = (t, g)" by (cases tg) auto
  from group_rows [of t g "filter_records records"] assms tg
  show ?thesis by (auto simp: filter_records_eq)
qed

section \<open>The claims\<close>

subsection \<open>Groups without a recognized operation kind\<close>

text \<open>
  C8 (amended). A non-empty group that holds none of the operation kinds
  \<^verbatim>\<open>Binance Convert\<close>, \<^verbatim>\<open>Deposit\<close>, \<^verbatim>\<open>Withdraw\<close>, \<^verbatim>\<open>Transaction Buy\<close> and
  \<^verbatim>\<open>Transaction Sold\<close> yields three empty lists when the timestamp of its first row is in
  the format \<^verbatim>\<open>%Y-%m-%d %H:%M:%S\<close>. The classifier converts that timestamp before it looks
  at the operation kinds (lines 98-101), so a group whose first timestamp is not in the
  format raises ValueError, whatever its operation kinds.
\<close>

theorem unrecognized_group:
  assumes "grp \<noteq> []"
    and "''Binance Convert'' \<notin> set (map Operation grp)"
    and "''Deposit'' \<notin> set (map Operation grp)"
    and "''Withdraw'' \<notin> set (map Operation grp)"
    and "''Transaction Buy'' \<notin> set (map Operation grp)"
    and "''Transaction Sold'' \<notin> set (map Operation grp)"
  shows "process_transaction_group lib grp h e =
           (case py_isoformat lib (UTC_Time (hd grp)) of
              None \<Rightarrow> Inl (TimeFormatError (UTC_Time (hd grp)))
            | Some ts \<Rightarrow> Inr ([], [], []))"
  using assms
  by (simp add: process_transaction_group_def iso_timestamp_of_def list.case_eq_if
      split: option.splits del: set_map)

text \<open>The theorem at a group of one interest row with a well-formed timestamp.\<close>

theorem unrecognized_group_witness:
  "process_transaction_group decimal_lib
     [row ''2021-03-04 05:06:07'' ''POS savings interest'' ''BNB'' ''0.01''] ''User'' ''Binance''
   = Inr ([], [], [])"
  using unrecognized_group [of "[row ''2021-03-04 05:06:07'' ''POS savings interest'' ''BNB'' ''0.01'']"
      decimal_lib "''User''" "''Binance''"]
  by (simp add: row_def decimal_lib_def iso_of_def digit_of_def days_in_month_def)

text \<open>
  C8 as stated fails: the same row with a timestamp in another format makes the
  classifier raise.
\<close>

theorem unrecognized_group_raises:
  "process_transaction_group decimal_lib
     [row ''04/03/2021 05:06'' ''POS savings interest'' ''BNB'' ''0.01''] ''User'' ''Binance''
   = Inl (TimeFormatError ''04/03/2021 05:06'')"
  by (simp add: process_transaction_group_def iso_timestamp_of_def row_def decimal_lib_def iso_of_def)

subsection \<open>A Convert row with amount zero\<close>

text \<open>
  C10. When the classifier returns, a \<^verbatim>\<open>Binance Convert\<close> row whose \<^verbatim>\<open>Change\<close> parses
  to zero has its Disposal record among the \<^verbatim>\<open>out\<close> records: type SELL and both crypto
  amounts zero (\<open>convert_out\<close>). It is not an Acquisition: every Acquisition record that
  comes from a Convert row (those have no fiat ticker) has a positive \<open>crypto_in\<close>, since
  only \<^verbatim>\<open>amount > 0\<close> takes the first branch of line 119.
\<close>

theorem convert_zero_is_disposal:
  assumes "process_transaction_group lib grp h e = Inr (ins, outs, intras)"
    and "r \<in> set grp" and "Operation r = ''Binance Convert''"
    and "py_float lib (Change r) = Some 0"
  shows "(\<exists>ts. py_isoformat lib (UTC_Time (hd grp)) = Some ts \<and>
              convert_out ts h e (Coin r) 0 \<in> set outs) \<and>
         (\<forall>i\<in>set ins. in_fiat_ticker i = None \<longrightarrow> 0 < crypto_in i)"
proof -
  from process_transaction_group_Inr [OF assms(1)] obtain ts buy_ins sold_outs where
    ts: "py_isoformat lib (UTC_Time (hd grp)) = Some ts" and
    ins: "ins = convert_ins lib ts h e grp @ buy_ins" and
    outs: "outs = convert_outs lib ts h e grp @ withdraw_outs lib ts h e grp @ sold_outs" and
    buy: "(if ''Transaction Buy'' \<in> set (map Operation grp)
            then buy_case lib ts h e grp ([], [], []) = Inr (buy_ins, [], [])
            else buy_ins = [])"
    by blast
  from assms(4) have zero: "change_of lib r = 0"
    by (simp add: change_of_def)
  with assms(2,3) have "convert_out ts h e (Coin r) 0 \<in> set (convert_outs lib ts h e grp)"
    by (force simp: convert_outs_def)
  with ts outs have a: "\<exists>ts. py_isoformat lib (UTC_Time (hd grp)) = Some ts \<and>
              convert_out ts h e (Coin r) 0 \<in> set outs"
    by auto
  have c: "\<forall>i\<in>set (convert_ins lib ts h e grp). 0 < crypto_in i"
    by (auto simp: convert_ins_def convert_in_def)
  have b: "\<forall>i\<in>set buy_ins. in_fiat_ticker i \<noteq> None"
  proof (cases "''Transaction Buy'' \<in> set (map Operation grp)")
    case True
    with buy have "buy_case lib ts h e grp ([], [], []) = Inr (buy_ins, [], [])" by (simp del: set_map)
    from buy_case_Inr [OF this] show ?thesis by (auto simp: buy_in_def)
  next
    case False
    with buy show ?thesis by (simp del: set_map)
  qed
  from a b c ins show ?thesis by auto
qed

text \<open>The theorem at a group of two Convert rows, one with amount zero.\<close>

theorem convert_zero_is_disposal_witness:
  "process_transaction_group decimal_lib
     [row ''2021-03-04 05:06:07'' ''Binance Convert'' ''XRP'' ''0'',
      row ''2021-03-04 05:06:07'' ''Binance Convert'' ''ADA'' ''10''] ''User'' ''Binance''
   = Inr ([convert_in ''2021-03-04T05:06:07Z'' ''User'' ''Binance'' ''ADA'' (Finite 10)],
          [convert_out ''2021-03-04T05:06:07Z'' ''User'' ''Binance'' ''XRP'' 0], []) \<and>
   convert_out ''2021-03-04T05:06:07Z'' ''User'' ''Binance'' ''XRP'' 0 \<in>
     set [convert_out ''2021-03-04T05:06:07Z'' ''User'' ''Binance'' ''XRP'' 0] \<and>
   0 < crypto_in (convert_in ''2021-03-04T05:06:07Z'' ''User'' ''Binance'' ''ADA'' (Finite 10)) \<and>
   crypto_out_no_fee (convert_out ''2021-03-04T05:06:07Z'' ''User'' ''Binance'' ''XRP'' 0) = 0 \<and>
   crypto_out_with_fee (convert_out ''2021-03-04T05:06:07Z'' ''User'' ''Binance'' ''XRP'' 0) = 0 \<and>
   out_transaction_type (convert_out ''2021-03-04T05:06:07Z'' ''User'' ''Binance'' ''XRP'' 0) = ''SELL''"
proof -
  let ?grp = "[row ''2021-03-04 05:06:07'' ''Binance Convert'' ''XRP'' ''0'',
      row ''2021-03-04 05:06:07'' ''Binance Convert'' ''ADA'' ''10'']"
  let ?ins = "[convert_in ''2021-03-04T05:06:07Z'' ''User'' ''Binance'' ''ADA'' (Finite 10)]"
  let ?outs = "[convert_out ''2021-03-04T05:06:07Z'' ''User'' ''Binance'' ''XRP'' 0]"
  have run: "process_transaction_group decimal_lib ?grp ''User'' ''Binance'' = Inr (?ins, ?outs, [])"
    by (simp add: run_defs)
  have zero: "py_float decimal_lib (Change (row ''2021-03-04 05:06:07'' ''Binance Convert'' ''XRP'' ''0'')) = Some 0"
    by (simp add: run_defs)
  from convert_zero_is_disposal [OF run _ _ zero] run show ?thesis
    by (simp add: row_def convert_in_def convert_out_def)
qed

subsection \<open>Transfers send what they receive\<close>

text \<open>
  C9. In every run that returns, every Transfer record handed to the writer, whether it
  comes from a Deposit row or from the rebranding matcher, has \<open>crypto_sent\<close> equal to
  \<open>crypto_received\<close>.
\<close>

theorem transfer_sent_equals_received:
  assumes "classify_records lib records h e = Inr (ins, outs, intras)"
  shows "\<forall>t\<in>set intras. crypto_sent t = crypto_received t"
proof -
  from classify_records_Inr [OF assms] obtain reb where
    reb: "process_rebranding_pairs lib (filter is_swap records)
            (filter is_rebranding_distribution records) h e = Inr reb" and
    grp: "process_groups lib h e (group_transactions_by_time (filter_records records))
            ([], [], reb) = Inr (ins, outs, intras)"
    by blast
  from dist_loop_Inr [OF reb [unfolded process_rebranding_pairs_def]]
  have "\<forall>t\<in>set reb. crypto_sent t = crypto_received t"
    by (auto dest: rebranding_intras_balanced)
  moreover from process_groups_Inr [OF grp]
  have "intras = reb @ concat (map (\<lambda>tg. group_intras lib h e (snd tg))
                 (group_transactions_by_time (filter_records records)))"
    by simp
  ultimately show ?thesis
    by (auto dest: group_intras_balanced)
qed

text \<open>The theorem at a run with one Deposit row and one rebranding pair.\<close>

theorem transfer_sent_equals_received_witness:
  "classify_records decimal_lib
     [row ''2021-03-04 05:06:07'' ''Deposit'' ''BTC'' ''0.5'',
      swap_row ''2021-05-06 07:08:09'' ''OLD'' ''-100'',
      distribution_row ''2021-05-06 07:08:10'' ''NEW'' ''100'' ''OLD to NEW''] ''User'' ''Binance''
   = Inr ([], [],
      [rebranding_intra ''2021-05-06T07:08:09Z'' ''User'' ''Binance'' ''OLD'' ''NEW'' (Finite 100),
       deposit_intra ''2021-03-04T05:06:07Z'' ''User'' ''Binance''
         (row ''2021-03-04 05:06:07'' ''Deposit'' ''BTC'' ''0.5'') (Finite (1/2))]) \<and>
   crypto_sent (rebranding_intra ''2021-05-06T07:08:09Z'' ''User'' ''Binance'' ''OLD'' ''NEW'' (Finite 100))
     = crypto_received (rebranding_intra ''2021-05-06T07:08:09Z'' ''User'' ''Binance'' ''OLD'' ''NEW'' (Finite 100)) \<and>
   crypto_sent (deposit_intra ''2021-03-04T05:06:07Z'' ''User'' ''Binance''
         (row ''2021-03-04 05:06:07'' ''Deposit'' ''BTC'' ''0.5'') (Finite (1/2)))
     = crypto_received (deposit_intra ''2021-03-04T05:06:07Z'' ''User'' ''Binance''
         (row ''2021-03-04 05:06:07'' ''Deposit'' ''BTC'' ''0.5'') (Finite (1/2)))"
proof -
  let ?recs = "[row ''2021-03-04 05:06:07'' ''Deposit'' ''BTC'' ''0.5'',
      swap_row ''2021-05-06 07:08:09'' ''OLD'' ''-100'',
      distribution_row ''2021-05-06 07:08:10'' ''NEW'' ''100'' ''OLD to NEW'']"
  let ?a = "rebranding_intra ''2021-05-06T07:08:09Z'' ''User'' ''Binance'' ''OLD'' ''NEW'' (Finite 100)"
  let ?b = "deposit_intra ''2021-03-04T05:06:07Z'' ''User'' ''Binance''
         (row ''2021-03-04 05:06:07'' ''Deposit'' ''BTC'' ''0.5'') (Finite (1/2))"
  have run: "classify_records decimal_lib ?recs ''User'' ''Binance'' = Inr ([], [], [?a, ?b])"
    by (simp add: run_defs)
  from transfer_sent_equals_received [OF run] run show ?thesis
    by simp
qed

subsection \<open>Signs of the reported crypto quantities\<close>

text \<open>
  A \<^verbatim>\<open>Change\<close> that reads \<^verbatim>\<open>nan\<close> is a float for Python: a Withdraw row with it is
  reported with the amount \<^verbatim>\<open>abs(nan)\<close>, which is NaN and not non-negative. The amended
  claim is therefore about inputs none of whose amounts parses to NaN.
\<close>

lemma nan_amount_is_reported:
  "classify_records decimal_lib
     [row ''2021-03-05 00:00:00'' ''Withdraw'' ''BTC'' ''nan''] ''User'' ''Binance''
   = Inr ([], [withdraw_out ''2021-03-05T00:00:00Z'' ''User'' ''Binance''
                 (row ''2021-03-05 00:00:00'' ''Withdraw'' ''BTC'' ''nan'') NaN], []) \<and>
   \<not> 0 \<le> crypto_out_no_fee (withdraw_out ''2021-03-05T00:00:00Z'' ''User'' ''Binance''
                 (row ''2021-03-05 00:00:00'' ''Withdraw'' ''BTC'' ''nan'') NaN)"
  by (simp add: run_defs withdraw_out_def)

text \<open>
  C3 (amended). In every run that returns on records none of whose \<^verbatim>\<open>Change\<close> fields
  parses to NaN: \<open>crypto_out_no_fee\<close>, \<open>crypto_fee\<close> and \<open>crypto_out_with_fee\<close> of every
  Disposal record and \<open>crypto_fee\<close> of every Acquisition record are non-negative;
  \<open>crypto_in\<close> of every Acquisition record that comes from a Convert row (those have no
  fiat ticker) is positive; and \<open>crypto_in\<close> of the Acquisition record of a group's Buy rows
  (the one with a fiat ticker) is the amount the loop of lines 222-226 adds up over the
  Buy rows minus the record's \<open>crypto_fee\<close> (line 239), with no sign of its own.
\<close>

theorem reported_quantities_signs:
  assumes "classify_records lib records h e = Inr (ins, outs, intras)"
    and "\<forall>r\<in>set records. py_float lib (Change r) \<noteq> Some NaN"
  shows "(\<forall>x\<in>set outs. 0 \<le> crypto_out_no_fee x \<and> 0 \<le> out_crypto_fee x \<and>
                          0 \<le> crypto_out_with_fee x) \<and>
         (\<forall>x\<in>set ins. 0 \<le> in_crypto_fee x \<and>
            (in_fiat_ticker x = None \<longrightarrow> 0 < crypto_in x) \<and>
            (in_fiat_ticker x \<noteq> None \<longrightarrow>
               (\<exists>tg\<in>set (group_transactions_by_time (filter_records records)).
                \<exists>asset amt.
                  asset_loop lib False
                    (filter (\<lambda>r. Operation r = ''Transaction Buy'') (snd tg)) (None, 0)
                    = Inr (asset, amt) \<and>
                  crypto_in x = amt - in_crypto_fee x)))"
proof -
  let ?groups = "group_transactions_by_time (filter_records records)"
  from classify_records_Inr [OF assms(1)] obtain reb where
    grp: "process_groups lib h e ?groups ([], [], reb) = Inr (ins, outs, intras)"
    by blast
  from process_groups_Inr [OF grp] have
    ins: "ins = concat (map (\<lambda>tg. group_ins lib h e (snd tg)) ?groups)" and
    outs: "outs = concat (map (\<lambda>tg. group_outs lib h e (snd tg)) ?groups)"
    by simp_all
  have finite: "\<forall>r\<in>set (snd tg). change_of lib r \<noteq> NaN" if "tg \<in> set ?groups" for tg
  proof
    fix r
    assume "r \<in> set (snd tg)"
    with group_rows_in_records [OF that] have "r \<in> set records" by blast
    with assms(2) have "py_float lib (Change r) \<noteq> Some NaN" by blast
    then show "change_of lib r \<noteq> NaN" by (rule change_of_not_NaN)
  qed
  have "0 \<le> crypto_out_no_fee x \<and> 0 \<le> out_crypto_fee x \<and> 0 \<le> crypto_out_with_fee x"
    if "x \<in> set outs" for x
  proof -
    from that outs obtain tg where tg: "tg \<in> set ?groups" and
      x: "x \<in> set (group_outs lib h e (snd tg))"
      by auto
    from group_outs_nonneg [OF x finite [OF tg]] show ?thesis .
  qed
  moreover have "0 \<le> in_crypto_fee x \<and>
            (in_fiat_ticker x = None \<longrightarrow> 0 < crypto_in x) \<and>
            (in_fiat_ticker x \<noteq> None \<longrightarrow>
               (\<exists>tg\<in>set ?groups. \<exists>asset amt.
                  asset_loop lib False
                    (filter (\<lambda>r. Operation r = ''Transaction Buy'') (snd tg)) (None, 0)
                    = Inr (asset, amt) \<and>
                  crypto_in x = amt - in_crypto_fee x))"
    if "x \<in> set ins" for x
  proof -
    from that ins obtain tg where tg: "tg \<in> set ?groups" and
      x: "x \<in> set (group_ins lib h e (snd tg))"
      by auto
    from group_ins_signs [OF x finite [OF tg]] tg show ?thesis by blast
  qed
  ultimately show ?thesis by blast
qed

text \<open>
  The theorem at a run with a Convert row, a Buy group with its Spend and Fee rows and a
  Sold group with its Revenue and Fee rows.
\<close>

theorem reported_quantities_signs_witness:
  "classify_records decimal_lib
     [row ''2021-03-04 05:06:07'' ''Binance Convert'' ''ADA'' ''10'',
      row ''2021-03-05 00:00:00'' ''Transaction Buy'' ''ETH'' ''1'',
      row ''2021-03-05 00:00:00'' ''Transaction Spend'' ''USDT'' ''-3000'',
      row ''2021-03-05 00:00:00'' ''Transaction Fee'' ''ETH'' ''-0.25'',
      row ''2021-03-06 00:00:00'' ''Transaction Sold'' ''BTC'' ''-2'',
      row ''2021-03-06 00:00:00'' ''Transaction Revenue'' ''USDT'' ''100'',
      row ''2021-03-06 00:00:00'' ''Transaction Fee'' ''USDT'' ''-1''] ''User'' ''Binance''
   = Inr ([convert_in ''2021-03-04T05:06:07Z'' ''User'' ''Binance'' ''ADA'' (Finite 10),
           buy_in ''2021-03-05T00:00:00Z'' ''User'' ''Binance'' (Some ''ETH'')
             (Finite (3/4)) (Finite (1/4)) (Finite 3000)],
          [sold_out ''2021-03-06T00:00:00Z'' ''User'' ''Binance'' (Some ''BTC'')
             (Finite 2) (Finite 99) (Finite 1) ''USDT''], []) \<and>
   0 < crypto_in (convert_in ''2021-03-04T05:06:07Z'' ''User'' ''Binance'' ''ADA'' (Finite 10)) \<and>
   0 \<le> in_crypto_fee (buy_in ''2021-03-05T00:00:00Z'' ''User'' ''Binance'' (Some ''ETH'')
             (Finite (3/4)) (Finite (1/4)) (Finite 3000)) \<and>
   crypto_in (buy_in ''2021-03-05T00:00:00Z'' ''User'' ''Binance'' (Some ''ETH'')
             (Finite (3/4)) (Finite (1/4)) (Finite 3000))
     = Finite 1 - in_crypto_fee (buy_in ''2021-03-05T00:00:00Z'' ''User'' ''Binance'' (Some ''ETH'')
             (Finite (3/4)) (Finite (1/4)) (Finite 3000)) \<and>
   0 \<le> crypto_out_no_fee (sold_out ''2021-03-06T00:00:00Z'' ''User'' ''Binance'' (Some ''BTC'')
             (Finite 2) (Finite 99) (Finite 1) ''USDT'') \<and>
   0 \<le> crypto_out_with_fee (sold_out ''2021-03-06T00:00:00Z'' ''User'' ''Binance'' (Some ''BTC'')
             (Finite 2) (Finite 99) (Finite 1) ''USDT'')"
proof -
  let ?recs = "[row ''2021-03-04 05:06:07'' ''Binance Convert'' ''ADA'' ''10'',
      row ''2021-03-05 00:00:00'' ''Transaction Buy'' ''ETH'' ''1'',
      row ''2021-03-05 00:00:00'' ''Transaction Spend'' ''USDT'' ''-3000'',
      row ''2021-03-05 00:00:00'' ''Transaction Fee'' ''ETH'' ''-0.25'',
      row ''2021-03-06 00:00:00'' ''Transaction Sold'' ''BTC'' ''-2'',
      row ''2021-03-06 00:00:00'' ''Transaction Revenue'' ''USDT'' ''100'',
      row ''2021-03-06 00:00:00'' ''Transaction Fee'' ''USDT'' ''-1'']"
  let ?c = "convert_in ''2021-03-04T05:06:07Z'' ''User'' ''Binance'' ''ADA'' (Finite 10)"
  let ?b = "buy_in ''2021-03-05T00:00:00Z'' ''User'' ''Binance'' (Some ''ETH'')
             (Finite (3/4)) (Finite (1/4)) (Finite 3000)"
  let ?s = "sold_out ''2021-03-06T00:00:00Z'' ''User'' ''Binance'' (Some ''BTC'')
             (Finite 2) (Finite 99) (Finite 1) ''USDT''"
  have run: "classify_records decimal_lib ?recs ''User'' ''Binance'' = Inr ([?c, ?b], [?s], [])"
    by (simp add: run_defs)
  have finite: "\<forall>r\<in>set ?recs. py_float decimal_lib (Change r) \<noteq> Some NaN"
    by (simp add: run_defs)
  have diff: "crypto_in ?b = Finite 1 - in_crypto_fee ?b"
    by (simp add: buy_in_def minus_pyfloat_def)
  from reported_quantities_signs [OF run finite] run diff show ?thesis
    by (simp add: convert_in_def)
qed

text \<open>
  C3 as stated fails: a Buy row of 1 ETH with a fee row of -2 ETH at the same timestamp
  gives an Acquisition record with \<open>crypto_in = -1\<close>.
\<close>

theorem buy_crypto_in_negative:
  "classify_records decimal_lib
     [row ''2021-03-04 05:06:07'' ''Transaction Buy'' ''ETH'' ''1'',
      row ''2021-03-04 05:06:07'' ''Transaction Fee'' ''ETH'' ''-2''] ''User'' ''Binance''
   = Inr ([buy_in ''2021-03-04T05:06:07Z'' ''User'' ''Binance'' (Some ''ETH'') (Finite (- 1)) (Finite 2) 0], [], []) \<and>
   crypto_in (buy_in ''2021-03-04T05:06:07Z'' ''User'' ''Binance'' (Some ''ETH'') (Finite (- 1)) (Finite 2) 0) < 0"
  by (simp add: run_defs buy_in_def)

subsection \<open>The Acquisition record of the Buy rows\<close>

text \<open>
  C1 (a defect of the code). For a group whose first Buy row has a non-empty asset symbol
  the claim holds: \<open>buy_acquisition\<close> above shows that the only Acquisition record with a
  fiat ticker is \<open>buy_in\<close> with the asset of the first Buy row, the Buy amounts of that
  asset minus the negative fee rows of that asset, and the absolute Spend amounts.
  Line 223 tests \<^verbatim>\<open>if not bought_asset\<close>, which is also true for the empty string, so a
  first Buy row with an empty \<^verbatim>\<open>Coin\<close> does not fix the asset: the next Buy row replaces
  it and its amount is added too. Here the first Buy row has the asset \<^verbatim>\<open>""\<close> and amount
  1, and the record reports the asset ETH and the amount 3.
\<close>

theorem buy_first_asset_empty:
  "process_transaction_group decimal_lib
     [row ''2021-03-04 05:06:07'' ''Transaction Buy'' [] ''1'',
      row ''2021-03-04 05:06:07'' ''Transaction Buy'' ''ETH'' ''2''] ''User'' ''Binance''
   = Inr ([buy_in ''2021-03-04T05:06:07Z'' ''User'' ''Binance'' (Some ''ETH'') (Finite 3) 0 0], [], []) \<and>
   bought_amount_of decimal_lib []
     [row ''2021-03-04 05:06:07'' ''Transaction Buy'' [] ''1'',
      row ''2021-03-04 05:06:07'' ''Transaction Buy'' ''ETH'' ''2''] = Finite 1"
  by (simp add: run_defs bought_amount_of_def change_of_def)

subsection \<open>The Disposal record of the Sold rows\<close>

text \<open>
  C2 (a defect of the code). For a group whose first Sold row has a non-empty asset symbol
  the claim holds: \<open>sold_disposal\<close> above shows that the only Disposal record with a fiat
  fee is \<open>sold_out\<close> with the asset of the first Sold row, the absolute Sold amounts of
  that asset, the Revenue amounts minus the negative fee rows of the revenue asset, and
  the asset of the last Revenue row as fiat ticker (\<^verbatim>\<open>USDT\<close> when there is none).
  Line 271 tests \<^verbatim>\<open>if not sold_asset\<close>, the same slip as in the Buy branch: here the
  first Sold row has the asset \<^verbatim>\<open>""\<close> and amount -1, and the record reports the asset ETH
  and the amount 3.
\<close>

theorem sold_first_asset_empty:
  "process_transaction_group decimal_lib
     [row ''2021-03-04 05:06:07'' ''Transaction Sold'' [] ''-1'',
      row ''2021-03-04 05:06:07'' ''Transaction Sold'' ''ETH'' ''-2''] ''User'' ''Binance''
   = Inr ([], [sold_out ''2021-03-04T05:06:07Z'' ''User'' ''Binance'' (Some ''ETH'') (Finite 3) 0 0 ''USDT''], []) \<and>
   sold_amount_of decimal_lib []
     [row ''2021-03-04 05:06:07'' ''Transaction Sold'' [] ''-1'',
      row ''2021-03-04 05:06:07'' ''Transaction Sold'' ''ETH'' ''-2''] = Finite 1"
  by (simp add: run_defs sold_amount_of_def change_of_def)

subsection \<open>The rebranding matcher pairs every matching swap row\<close>

text \<open>
  C4 (amended). When the rebranding matcher returns, its Transfer records are, for each
  Distribution row whose remark contains \<^verbatim>\<open>" to "\<close>, in order, one record for every swap
  row whose asset is the old asset of the remark, in the order of the swap rows
  (\<open>rebranding_intras\<close>): a Distribution row whose old asset matches k swap rows yields k
  Transfer records. The inner loop of lines 378-401 has no \<^verbatim>\<open>break\<close>.
\<close>

theorem rebranding_pairs_all_matches:
  assumes "process_rebranding_pairs lib swap_records distribution_records h e = Inr intras"
  shows "intras = concat (map (rebranding_intras lib h e swap_records)
                    (filter (\<lambda>d. py_in '' to '' (remark_get d [])) distribution_records)) \<and>
         (\<forall>d\<in>set (filter (\<lambda>d. py_in '' to '' (remark_get d [])) distribution_records).
            \<exists>from_asset to_asset. rename_of d = Some (from_asset, to_asset) \<and>
              length (rebranding_intras lib h e swap_records d) =
              length (filter (\<lambda>s. Coin s = from_asset) swap_records))"
proof -
  from dist_loop_Inr [OF assms [unfolded process_rebranding_pairs_def]]
  show ?thesis
    by (auto simp: list_all_iff rebranding_intras_def)
qed

text \<open>
  The theorem at three swap rows, two of them of the old asset, and one Distribution row.
\<close>

theorem rebranding_pairs_all_matches_witness:
  "process_rebranding_pairs decimal_lib
     [swap_row ''2021-05-06 07:08:09'' ''OLD'' ''-100'',
      swap_row ''2021-05-06 07:08:09'' ''XYZ'' ''-7'',
      swap_row ''2021-05-07 00:00:00'' ''OLD'' ''-50'']
     [distribution_row ''2021-05-06 07:08:10'' ''NEW'' ''150'' ''OLD to NEW''] ''User'' ''Binance''
   = Inr [rebranding_intra ''2021-05-06T07:08:09Z'' ''User'' ''Binance'' ''OLD'' ''NEW'' (Finite 100),
          rebranding_intra ''2021-05-07T00:00:00Z'' ''User'' ''Binance'' ''OLD'' ''NEW'' (Finite 50)] \<and>
   [rebranding_intra ''2021-05-06T07:08:09Z'' ''User'' ''Binance'' ''OLD'' ''NEW'' (Finite 100),
    rebranding_intra ''2021-05-07T00:00:00Z'' ''User'' ''Binance'' ''OLD'' ''NEW'' (Finite 50)]
   = concat (map (rebranding_intras decimal_lib ''User'' ''Binance''
        [swap_row ''2021-05-06 07:08:09'' ''OLD'' ''-100'',
         swap_row ''2021-05-06 07:08:09'' ''XYZ'' ''-7'',
         swap_row ''2021-05-07 00:00:00'' ''OLD'' ''-50''])
        [distribution_row ''2021-05-06 07:08:10'' ''NEW'' ''150'' ''OLD to NEW'']) \<and>
   length (rebranding_intras decimal_lib ''User'' ''Binance''
        [swap_row ''2021-05-06 07:08:09'' ''OLD'' ''-100'',
         swap_row ''2021-05-06 07:08:09'' ''XYZ'' ''-7'',
         swap_row ''2021-05-07 00:00:00'' ''OLD'' ''-50'']
        (distribution_row ''2021-05-06 07:08:10'' ''NEW'' ''150'' ''OLD to NEW'')) = 2"
proof -
  let ?swaps = "[swap_row ''2021-05-06 07:08:09'' ''OLD'' ''-100'',
      swap_row ''2021-05-06 07:08:09'' ''XYZ'' ''-7'',
      swap_row ''2021-05-07 00:00:00'' ''OLD'' ''-50'']"
  let ?d = "distribution_row ''2021-05-06 07:08:10'' ''NEW'' ''150'' ''OLD to NEW''"
  have run: "process_rebranding_pairs decimal_lib ?swaps [?d] ''User'' ''Binance''
      = Inr [rebranding_intra ''2021-05-06T07:08:09Z'' ''User'' ''Binance'' ''OLD'' ''NEW'' (Finite 100),
             rebranding_intra ''2021-05-07T00:00:00Z'' ''User'' ''Binance'' ''OLD'' ''NEW'' (Finite 50)]"
    by (simp add: run_defs)
  have sep: "filter (\<lambda>d. py_in '' to '' (remark_get d [])) [?d] = [?d]"
    by (simp add: run_defs)
  have rn: "rename_of ?d = Some (''OLD'', ''NEW'')"
    by (simp add: rename_of_def run_defs)
  have two: "length (filter (\<lambda>s. Coin s = ''OLD'') ?swaps) = 2"
    by (simp add: run_defs)
  from rebranding_pairs_all_matches [OF run] run sep rn two show ?thesis
    by simp
qed

text \<open>
  C4 as stated fails: one Distribution row and two swap rows of its old asset give two
  Transfer records.
\<close>

theorem rebranding_two_swaps_two_transfers:
  "process_rebranding_pairs decimal_lib
     [swap_row ''2021-05-06 07:08:09'' ''OLD'' ''-100'', swap_row ''2021-06-07 08:09:10'' ''OLD'' ''-50'']
     [distribution_row ''2021-06-07 08:09:11'' ''NEW'' ''150'' ''OLD to NEW''] ''User'' ''Binance''
   = Inr [rebranding_intra ''2021-05-06T07:08:09Z'' ''User'' ''Binance'' ''OLD'' ''NEW'' (Finite 100),
          rebranding_intra ''2021-06-07T08:09:10Z'' ''User'' ''Binance'' ''OLD'' ''NEW'' (Finite 50)]"
  by (simp add: run_defs)

subsection \<open>A remark with two separators\<close>

text \<open>
  C5 (a defect of the code). Line 376 unpacks \<^verbatim>\<open>remark.split(" to ")\<close> into two names.
  A remark with two separators splits into three parts, the unpacking raises ValueError,
  and the run ends without writing a file.
\<close>

theorem remark_with_two_separators_raises:
  "main decimal_lib ''out'' ''User'' ''Binance''
     [swap_row ''2021-05-06 07:08:09'' ''OLD'' ''-100'',
      distribution_row ''2021-05-06 07:08:10'' ''NEW'' ''100'' ''OLD to MID to NEW''] fs
   = (Inl (UnpackError 3), fs)"
  by (simp add: main_def run_defs)

subsection \<open>A Change that is not a number ends the run\<close>

text \<open>
  C7. If a row whose \<^verbatim>\<open>Change\<close> the run parses (\<open>change_is_parsed\<close>: a Convert, Deposit or
  Withdraw row, a Buy, Sold, Spend, Revenue or Fee row that its group's Buy or Sold
  pattern reads, or a swap row that matches a Distribution remark) has a \<^verbatim>\<open>Change\<close> that
  \<^verbatim>\<open>float\<close> rejects, then \<^verbatim>\<open>main\<close> ends with an exception and the file system is as it was
  before the run: \<^verbatim>\<open>write_output_files\<close> is only called after every group is classified.
\<close>

theorem non_numeric_change_is_fatal:
  assumes "r \<in> set records" and "change_is_parsed records r"
    and "py_float lib (Change r) = None"
  shows "\<exists>err. main lib output_directory h e records fs = (Inl err, fs)"
proof (cases "classify_records lib records h e")
  case (Inl err)
  then show ?thesis by (simp add: main_def)
next
  case (Inr res)
  from classify_records_numeric [OF Inr assms(1,2)] assms(3) show ?thesis
    by (simp add: numeric_def)
qed

text \<open>The theorem at a run of three rows whose Spend row has the amount \<^verbatim>\<open>n/a\<close>.\<close>

theorem non_numeric_change_is_fatal_witness:
  "main decimal_lib ''out'' ''User'' ''Binance''
     [row ''2021-03-04 05:06:07'' ''Withdraw'' ''BTC'' ''-0.1'',
      row ''2021-03-05 00:00:00'' ''Transaction Buy'' ''ETH'' ''1'',
      row ''2021-03-05 00:00:00'' ''Transaction Spend'' ''USDT'' ''n/a''] Map.empty
   = (Inl (FloatError ''n/a''), Map.empty)"
proof -
  let ?r = "row ''2021-03-05 00:00:00'' ''Transaction Spend'' ''USDT'' ''n/a''"
  let ?recs = "[row ''2021-03-04 05:06:07'' ''Withdraw'' ''BTC'' ''-0.1'',
      row ''2021-03-05 00:00:00'' ''Transaction Buy'' ''ETH'' ''1'', ?r]"
  have mem: "?r \<in> set ?recs" by simp
  have parsed: "change_is_parsed ?recs ?r"
    by (simp add: change_is_parsed_def parsed_in_group_def run_defs)
  have bad: "py_float decimal_lib (Change ?r) = None"
    by (simp add: run_defs)
  have run: "classify_records decimal_lib ?recs ''User'' ''Binance'' = Inl (FloatError ''n/a'')"
    by (simp add: run_defs)
  from non_numeric_change_is_fatal [OF mem parsed bad, of "''out''" "''User''" "''Binance''" Map.empty] run
  show ?thesis by (simp add: main_def)
qed

subsection \<open>Rows of the rebranding pattern never reach the classifier\<close>

text \<open>
  C6. A row with the operation kind \<^verbatim>\<open>Token Swap - Redenomination/Rebranding\<close>, or with
  the kind \<^verbatim>\<open>Distribution\<close> and a remark containing \<^verbatim>\<open>" to "\<close>, is not among the records
  that are grouped and is in no group, whether or not it has a partner. If it has none
  (\<open>unmatched\<close>), the run returns what it returns on the records without that row: the
  row contributes to none of the three lists.
\<close>

theorem rebranding_rows_dropped:
  assumes "is_swap r \<or> is_rebranding_distribution r"
  shows "r \<notin> set (filter_records records) \<and>
         (\<forall>tg\<in>set (group_transactions_by_time (filter_records records)). r \<notin> set (snd tg)) \<and>
         (\<forall>xs ys. records = xs @ r # ys \<and> unmatched r (xs @ ys) \<longrightarrow>
            classify_records lib records h e = classify_records lib (xs @ ys) h e)"
proof (intro conjI allI impI ballI)
  from assms show gone: "r \<notin> set (filter_records records)"
    by (auto simp: filter_records_eq)
  fix tg
  assume tg: "tg \<in> set (group_transactions_by_time (filter_records records))"
  obtain t g where "tg = (t, g)" by (cases tg) auto
  with group_rows [of t g "filter_records records"] tg gone
  show "r \<notin> set (snd tg)" by auto
next
  fix xs ys
  assume a: "records = xs @ r # ys \<and> unmatched r (xs @ ys)"
  from assms have "filter_records (xs @ r # ys) = filter_records (xs @ ys)"
    by (auto simp: filter_records_eq)
  with a rebranding_skip [OF assms, of xs ys lib h e]
  show "classify_records lib records h e = classify_records lib (xs @ ys) h e"
    by (simp add: classify_records_def Let_def)
qed

text \<open>
  The theorem at a swap row of the asset OLD between a Deposit row and a Distribution row
  that renames ABC.
\<close>

theorem rebranding_rows_dropped_witness:
  "(is_swap (swap_row ''2021-05-06 07:08:09'' ''OLD'' ''-100'') \<or>
    is_rebranding_distribution (swap_row ''2021-05-06 07:08:09'' ''OLD'' ''-100'')) \<and>
   unmatched (swap_row ''2021-05-06 07:08:09'' ''OLD'' ''-100'')
     ([row ''2021-03-04 05:06:07'' ''Deposit'' ''BTC'' ''0.5''] @
      [distribution_row ''2021-05-06 07:08:10'' ''NEW'' ''100'' ''ABC to NEW'']) \<and>
   swap_row ''2021-05-06 07:08:09'' ''OLD'' ''-100'' \<notin>
     set (filter_records
       [row ''2021-03-04 05:06:07'' ''Deposit'' ''BTC'' ''0.5'',
        swap_row ''2021-05-06 07:08:09'' ''OLD'' ''-100'',
        distribution_row ''2021-05-06 07:08:10'' ''NEW'' ''100'' ''ABC to NEW'']) \<and>
   classify_records decimal_lib
       [row ''2021-03-04 05:06:07'' ''Deposit'' ''BTC'' ''0.5'',
        swap_row ''2021-05-06 07:08:09'' ''OLD'' ''-100'',
        distribution_row ''2021-05-06 07:08:10'' ''NEW'' ''100'' ''ABC to NEW''] ''User'' ''Binance''
     = classify_records decimal_lib
       ([row ''2021-03-04 05:06:07'' ''Deposit'' ''BTC'' ''0.5''] @
        [distribution_row ''2021-05-06 07:08:10'' ''NEW'' ''100'' ''ABC to NEW'']) ''User'' ''Binance'' \<and>
   classify_records decimal_lib
       [row ''2021-03-04 05:06:07'' ''Deposit'' ''BTC'' ''0.5'',
        swap_row ''2021-05-06 07:08:09'' ''OLD'' ''-100'',
        distribution_row ''2021-05-06 07:08:10'' ''NEW'' ''100'' ''ABC to NEW''] ''User'' ''Binance''
     = Inr ([], [], [deposit_intra ''2021-03-04T05:06:07Z'' ''User'' ''Binance''
         (row ''2021-03-04 05:06:07'' ''Deposit'' ''BTC'' ''0.5'') (Finite (1/2))])"
proof -
  let ?s = "swap_row ''2021-05-06 07:08:09'' ''OLD'' ''-100''"
  let ?xs = "[row ''2021-03-04 05:06:07'' ''Deposit'' ''BTC'' ''0.5'']"
  let ?ys = "[distribution_row ''2021-05-06 07:08:10'' ''NEW'' ''100'' ''ABC to NEW'']"
  have el: "is_swap ?s \<or> is_rebranding_distribution ?s"
    by (simp add: is_swap_def swap_row_def row_def)
  have un: "unmatched ?s (?xs @ ?ys)"
    by (simp add: unmatched_def old_asset_of_def rename_of_def run_defs)
  have run: "classify_records decimal_lib (?xs @ ?s # ?ys) ''User'' ''Binance''
     = Inr ([], [], [deposit_intra ''2021-03-04T05:06:07Z'' ''User'' ''Binance''
         (row ''2021-03-04 05:06:07'' ''Deposit'' ''BTC'' ''0.5'') (Finite (1/2))])"
    by (simp add: run_defs)
  from rebranding_rows_dropped [OF el, of "?xs @ ?s # ?ys" decimal_lib "''User''" "''Binance''"]
  have "?s \<notin> set (filter_records (?xs @ ?s # ?ys))"
    and "\<forall>xs ys. ?xs @ ?s # ?ys = xs @ ?s # ys \<and> unmatched ?s (xs @ ys) \<longrightarrow>
            classify_records decimal_lib (?xs @ ?s # ?ys) ''User'' ''Binance'' =
            classify_records decimal_lib (xs @ ys) ''User'' ''Binance''"
    by blast+
  from this(1) this(2) [rule_format, of ?xs ?ys] el un run show ?thesis
    by simp
qed

end
